theory Spec2Isabelle
  imports Main
begin

unbundle bit_operations_syntax

section \<open>canvasse.js: the two canvases of the place client\<close>

text \<open>
  The module \<^verbatim>\<open>canvasse\<close> keeps two canvas elements of the browser, the visible one
  (\<^verbatim>\<open>el\<close>, drawn through \<^verbatim>\<open>ctx\<close>) and a hidden one (\<^verbatim>\<open>bufferEl\<close>, drawn through
  \<^verbatim>\<open>bufferCtx\<close>). Its functions are translated below in the order of the source. The
  canvas API of the browser is not part of the repository; the calls the module makes
  (\<^verbatim>\<open>fillRect\<close>, \<^verbatim>\<open>clearRect\<close>, \<^verbatim>\<open>drawImage\<close>, \<^verbatim>\<open>putImageData\<close>, the \<^verbatim>\<open>ImageData\<close> and
  \<^verbatim>\<open>Uint8ClampedArray\<close> constructors, \<^verbatim>\<open>parseInt\<close>) are modelled after the HTML and
  ECMAScript standards. Numbers are the integers (coordinates, dimensions and byte
  values are of type \<open>int\<close>); memory is unbounded.
\<close>

subsection \<open>Errors raised by the platform\<close>

datatype error = TypeError | RangeError | InvalidStateError | IndexSizeError

definition bindE :: "error + 'a \<Rightarrow> ('a \<Rightarrow> error + 'b) \<Rightarrow> error + 'b" where
  "bindE r f = (case r of Inl e \<Rightarrow> Inl e | Inr v \<Rightarrow> f v)"

subsection \<open>Numbers: what \<^verbatim>\<open>parseInt(s, 16)\<close> returns, and the 32-bit operators\<close>

datatype number = Num int | NaN | Infinity

function bitlen :: "int \<Rightarrow> nat" where
  "bitlen n = (if n \<le> 0 then 0 else Suc (bitlen (n div 2)))"
  by pat_completeness auto
termination
  by (relation "measure nat") auto

declare bitlen.simps [simp del]

text \<open>
  A Number is a double: a natural number of more than 53 bits is rounded to 53
  significant bits, ties to even, and to an infinity from \<open>2 ^ 1024\<close> on.
\<close>

definition roundToDouble :: "int \<Rightarrow> number" where
  "roundToDouble n =
     (if bitlen n \<le> 53 then Num n
      else
        let e = bitlen n - 53;
            q = n div 2 ^ e;
            r = n mod 2 ^ e;
            half = 2 ^ (e - 1);
            q' = (if half < r \<or> (r = half \<and> odd q) then q + 1 else q);
            v = q' * 2 ^ e
        in if 2 ^ 1024 \<le> v then Infinity else Num v)"

definition negate :: "number \<Rightarrow> number" where
  "negate v = (case v of Num i \<Rightarrow> Num (- i) | NaN \<Rightarrow> NaN | Infinity \<Rightarrow> Infinity)"

definition isWhiteSpace :: "char \<Rightarrow> bool" where
  "isWhiteSpace c = (c \<in> set [CHR 0x09, CHR 0x0A, CHR 0x0B, CHR 0x0C, CHR 0x0D, CHR '' ''])"

definition hexDigitValue :: "char \<Rightarrow> int option" where
  "hexDigitValue c =
     (let n = (of_char c :: int) in
      if 48 \<le> n \<and> n \<le> 57 then Some (n - 48)
      else if 97 \<le> n \<and> n \<le> 102 then Some (n - 87)
      else if 65 \<le> n \<and> n \<le> 70 then Some (n - 55)
      else None)"

definition isHexDigit :: "char \<Rightarrow> bool" where
  "isHexDigit c = (hexDigitValue c \<noteq> None)"

definition hexValue :: "char \<Rightarrow> int" where
  "hexValue c = (case hexDigitValue c of Some v \<Rightarrow> v | None \<Rightarrow> 0)"

definition stripSign :: "string \<Rightarrow> bool \<times> string" where
  "stripSign s =
     (case s of
        [] \<Rightarrow> (False, s)
      | c # r \<Rightarrow> if c = CHR ''-'' then (True, r) else if c = CHR ''+'' then (False, r) else (False, s))"

definition stripPrefix :: "string \<Rightarrow> string" where
  "stripPrefix s =
     (case s of
        c # d # r \<Rightarrow> if c = CHR ''0'' \<and> (d = CHR ''x'' \<or> d = CHR ''X'') then r else s
      | _ \<Rightarrow> s)"

text \<open>
  \<^verbatim>\<open>parseInt(s, 16)\<close> of ECMAScript: leading white space is skipped, a sign and then a
  prefix \<^verbatim>\<open>0x\<close> are read, the longest run of hexadecimal digits is the value, and no
  digit at all is \<^verbatim>\<open>NaN\<close>. (Strings are byte strings here: the white space beyond the
  ASCII range is not modelled.)
\<close>

definition parseInt16 :: "string \<Rightarrow> number" where
  "parseInt16 s =
     (let (neg, s1) = stripSign (dropWhile isWhiteSpace s);
          z = takeWhile isHexDigit (stripPrefix s1)
      in if z = [] then NaN
         else
           let v = roundToDouble (foldl (\<lambda>a c. 16 * a + hexValue c) 0 z)
           in if neg then negate v else v)"

text \<open>
  The operators \<^verbatim>\<open>>>\<close> and \<^verbatim>\<open>&\<close> work on \<^verbatim>\<open>ToInt32\<close> of their operands: the value
  modulo \<open>2 ^ 32\<close>, read as two's complement; \<^verbatim>\<open>NaN\<close> and the infinities are 0.
\<close>

definition toInt32 :: "number \<Rightarrow> int" where
  "toInt32 v =
     (case v of
        Num i \<Rightarrow> (let m = i mod 2 ^ 32 in if 2 ^ 31 \<le> m then m - 2 ^ 32 else m)
      | NaN \<Rightarrow> 0
      | Infinity \<Rightarrow> 0)"

record Color =
  red :: int
  green :: int
  blue :: int

definition parseHexColor :: "string \<Rightarrow> Color" where
  "parseHexColor hexColor =
     (let colorVal = toInt32 (parseInt16 (drop 1 hexColor))
      in \<lparr> red = drop_bit 16 colorVal AND 0xFF,
           green = drop_bit 8 colorVal AND 0xFF,
           blue = colorVal AND 0xFF \<rparr>)"

subsection \<open>Canvas elements and their 2D contexts\<close>

datatype pixel = RGBA int int int int

definition alpha :: "pixel \<Rightarrow> int" where
  "alpha p = (case p of RGBA r g b a \<Rightarrow> a)"

definition transparent :: pixel where
  "transparent = RGBA 0 0 0 0"

text \<open>
  A canvas element with its 2D context: the dimensions, the bitmap in row-major
  order, and the one attribute of the context the module sets, the fill style (as the
  colour it was parsed to).
\<close>

record surface =
  cwidth :: int
  cheight :: int
  bitmap :: "pixel list"
  fillStyle :: pixel

text \<open>
  What the standards leave to the browser, or what is too large to write out here, is
  a parameter of the model: the CSS colour syntax other than \<^verbatim>\<open>#RRGGBB\<close> (\<open>None\<close>: not a
  colour), the result of compositing a partially transparent pixel over another, and
  the bitmap \<^verbatim>\<open>drawImage\<close> leaves when it has to scale the image.
\<close>

record platform =
  cssOther :: "string \<Rightarrow> pixel option"
  blend :: "pixel \<Rightarrow> pixel \<Rightarrow> pixel"
  resample :: "surface \<Rightarrow> int \<Rightarrow> int \<Rightarrow> surface \<Rightarrow> pixel list"

definition blank :: "int \<Rightarrow> int \<Rightarrow> pixel list" where
  "blank w h = replicate (nat w * nat h) transparent"

text \<open>
  \<^verbatim>\<open>document.createElement('canvas')\<close>: 300 by 150, transparent black, the fill style
  opaque black.
\<close>

definition createCanvas :: surface where
  "createCanvas = \<lparr> cwidth = 300, cheight = 150, bitmap = blank 300 150, fillStyle = RGBA 0 0 0 255 \<rparr>"

text \<open>
  Assigning \<^verbatim>\<open>width\<close> or \<^verbatim>\<open>height\<close> of a canvas element clears its bitmap to transparent
  black and resets its context. The attributes reflect an unsigned long: the number
  assigned is read modulo \<open>2 ^ 32\<close>, and a value above \<open>2 ^ 31 - 1\<close> is out of the range
  of the attribute, which then takes its default, 300 for the width and 150 for the
  height. (So does every negative number above \<open>- 2 ^ 31\<close>.)
\<close>

definition canvasDim :: "int \<Rightarrow> int \<Rightarrow> int" where
  "canvasDim dflt v = (let u = v mod 2 ^ 32 in if u \<le> 2147483647 then u else dflt)"

definition setWidth :: "surface \<Rightarrow> int \<Rightarrow> surface" where
  "setWidth s w =
     s\<lparr> cwidth := canvasDim 300 w, bitmap := blank (canvasDim 300 w) (cheight s),
        fillStyle := RGBA 0 0 0 255 \<rparr>"

definition setHeight :: "surface \<Rightarrow> int \<Rightarrow> surface" where
  "setHeight s h =
     s\<lparr> cheight := canvasDim 150 h, bitmap := blank (cwidth s) (canvasDim 150 h),
        fillStyle := RGBA 0 0 0 255 \<rparr>"

definition inBounds :: "surface \<Rightarrow> int \<Rightarrow> int \<Rightarrow> bool" where
  "inBounds s x y = (0 \<le> x \<and> x < cwidth s \<and> 0 \<le> y \<and> y < cheight s)"

text \<open>The pixel a \<^verbatim>\<open>getImageData(x, y, 1, 1)\<close> reads: transparent black outside the canvas.\<close>

definition pixelAt :: "surface \<Rightarrow> int \<Rightarrow> int \<Rightarrow> pixel" where
  "pixelAt s x y = (if inBounds s x y then bitmap s ! nat (y * cwidth s + x) else transparent)"

definition mapPixels :: "(int \<Rightarrow> int \<Rightarrow> pixel \<Rightarrow> pixel) \<Rightarrow> surface \<Rightarrow> surface" where
  "mapPixels f s =
     s\<lparr> bitmap :=
          map (\<lambda>i. f (int i mod cwidth s) (int i div cwidth s) (bitmap s ! i))
            [0 ..< length (bitmap s)] \<rparr>"

text \<open>
  \<^verbatim>\<open>fillRect\<close> and \<^verbatim>\<open>drawImage\<close> composite what they draw onto the bitmap with the
  operator of the context, which is source-over: \<^verbatim>\<open>init\<close> resets both contexts to
  their defaults, and the module never assigns \<^verbatim>\<open>globalCompositeOperation\<close>. An opaque
  source pixel replaces the destination pixel, a fully transparent one leaves it as it
  is.
\<close>

definition over :: "platform \<Rightarrow> pixel \<Rightarrow> pixel \<Rightarrow> pixel" where
  "over P src dst =
     (if alpha src = 255 then src else if alpha src = 0 then dst else blend P src dst)"

definition cssColor :: "platform \<Rightarrow> string \<Rightarrow> pixel option" where
  "cssColor P s =
     (case s of
        [h, r1, r0, g1, g0, b1, b0] \<Rightarrow>
          if h = CHR ''#'' \<and> list_all isHexDigit [r1, r0, g1, g0, b1, b0]
          then Some (RGBA (16 * hexValue r1 + hexValue r0)
                          (16 * hexValue g1 + hexValue g0)
                          (16 * hexValue b1 + hexValue b0) 255)
          else cssOther P s
      | _ \<Rightarrow> cssOther P s)"

text \<open>Assigning \<^verbatim>\<open>fillStyle\<close> a string that is not a colour is ignored.\<close>

definition setFillStyle :: "platform \<Rightarrow> surface \<Rightarrow> string \<Rightarrow> surface" where
  "setFillStyle P s color =
     (case cssColor P color of None \<Rightarrow> s | Some p \<Rightarrow> s\<lparr> fillStyle := p \<rparr>)"

definition covers :: "int \<Rightarrow> int \<Rightarrow> int \<Rightarrow> int \<Rightarrow> int \<Rightarrow> int \<Rightarrow> bool" where
  "covers x y w h px py =
     (min x (x + w) \<le> px \<and> px < max x (x + w) \<and> min y (y + h) \<le> py \<and> py < max y (y + h))"

definition fillRect :: "platform \<Rightarrow> surface \<Rightarrow> int \<Rightarrow> int \<Rightarrow> int \<Rightarrow> int \<Rightarrow> surface" where
  "fillRect P s x y w h =
     mapPixels (\<lambda>px py p. if covers x y w h px py then over P (fillStyle s) p else p) s"

definition clearRect :: "surface \<Rightarrow> int \<Rightarrow> int \<Rightarrow> int \<Rightarrow> int \<Rightarrow> surface" where
  "clearRect s x y w h =
     mapPixels (\<lambda>px py p. if covers x y w h px py then transparent else p) s"

text \<open>
  \<^verbatim>\<open>drawImage(image, 0, 0, dw, dh)\<close> with a canvas as the image: an image of no width or
  no height is an error; an image drawn at its own size is composited pixel by pixel;
  a scaled one is left to the platform.
\<close>

definition drawImage :: "platform \<Rightarrow> surface \<Rightarrow> surface \<Rightarrow> int \<Rightarrow> int \<Rightarrow> error + surface" where
  "drawImage P dst src dw dh =
     (if cwidth src = 0 \<or> cheight src = 0 then Inl InvalidStateError
      else if dw = cwidth src \<and> dh = cheight src
      then Inr (mapPixels (\<lambda>px py p. over P (pixelAt src px py) p) dst)
      else Inr (dst\<lparr> bitmap := resample P src dw dh dst \<rparr>))"

text \<open>\<^verbatim>\<open>new Uint8ClampedArray(n)\<close>: \<open>n\<close> zero bytes; a negative length is a RangeError.\<close>

definition newUint8ClampedArray :: "int \<Rightarrow> error + int list" where
  "newUint8ClampedArray n = (if n < 0 then Inl RangeError else Inr (replicate (nat n) 0))"

definition clamp8 :: "int \<Rightarrow> int" where
  "clamp8 v = (if v < 0 then 0 else if 255 < v then 255 else v)"

text \<open>An assignment to an index outside a typed array is ignored.\<close>

definition setByte :: "int list \<Rightarrow> int \<Rightarrow> int \<Rightarrow> int list" where
  "setByte a i v = (if 0 \<le> i \<and> i < int (length a) then a[nat i := clamp8 v] else a)"

record imageData =
  iwidth :: int
  iheight :: int
  idata :: "int list"

text \<open>
  \<^verbatim>\<open>new ImageData(data, sw, sh)\<close>: the length of the data is a positive multiple of 4,
  and the number of pixels is \<open>sw\<close> times \<open>sh\<close>. The two dimensions are unsigned, so
  that one that is not positive never matches the data.
\<close>

definition newImageData :: "int list \<Rightarrow> int \<Rightarrow> int \<Rightarrow> error + imageData" where
  "newImageData d sw sh =
     (let n = int (length d) in
      if n = 0 \<or> n mod 4 \<noteq> 0 then Inl InvalidStateError
      else if sw \<le> 0 \<or> (n div 4) mod sw \<noteq> 0 then Inl IndexSizeError
      else if (n div 4) div sw \<noteq> sh then Inl IndexSizeError
      else Inr \<lparr> iwidth = sw, iheight = sh, idata = d \<rparr>)"

definition imagePixel :: "imageData \<Rightarrow> int \<Rightarrow> int \<Rightarrow> pixel" where
  "imagePixel img x y =
     (let i = nat (4 * (y * iwidth img + x)) in
      RGBA (idata img ! i) (idata img ! (i + 1)) (idata img ! (i + 2)) (idata img ! (i + 3)))"

text \<open>
  \<^verbatim>\<open>putImageData(img, 0, 0)\<close> stores the pixels of the image, alpha included, with no
  compositing; pixels of the canvas outside the image are untouched.
\<close>

definition putImageData :: "surface \<Rightarrow> imageData \<Rightarrow> surface" where
  "putImageData s img =
     mapPixels (\<lambda>px py p. if px < iwidth img \<and> py < iheight img then imagePixel img px py else p) s"

subsection \<open>The module\<close>

text \<open>
  The object the module returns. \<^verbatim>\<open>ctx\<close> and \<^verbatim>\<open>bufferCtx\<close> are the contexts of \<^verbatim>\<open>el\<close>
  and \<^verbatim>\<open>bufferEl\<close>, kept inside the surfaces; all four are \<^verbatim>\<open>null\<close> (\<open>None\<close>) until
  \<^verbatim>\<open>init\<close>.
\<close>

record canvasse =
  width :: int
  height :: int
  el :: "surface option"
  bufferEl :: "surface option"
  isBufferDirty :: bool
  isDisplayDirty :: bool

definition canvasse0 :: canvasse where
  "canvasse0 = \<lparr> width = 0, height = 0, el = None, bufferEl = None,
                  isBufferDirty = False, isDisplayDirty = False \<rparr>"

text \<open>\<^verbatim>\<open>init\<close> has no check and no call that can raise on a canvas element.\<close>

definition init :: "canvasse \<Rightarrow> surface \<Rightarrow> int \<Rightarrow> int \<Rightarrow> error + canvasse" where
  "init c e w h =
     Inr (c\<lparr> width := w, height := h,
             el := Some (setHeight (setWidth e w) h),
             bufferEl := Some (setHeight (setWidth createCanvas w) h) \<rparr>)"

definition drawTileToDisplay :: "platform \<Rightarrow> canvasse \<Rightarrow> int \<Rightarrow> int \<Rightarrow> string \<Rightarrow> error + canvasse" where
  "drawTileToDisplay P c x y color =
     (case el c of
        None \<Rightarrow> Inl TypeError
      | Some d \<Rightarrow>
          Inr (c\<lparr> el := Some (fillRect P (setFillStyle P d color) x y 1 1),
                  isDisplayDirty := True \<rparr>))"

definition drawRectToDisplay ::
  "platform \<Rightarrow> canvasse \<Rightarrow> int \<Rightarrow> int \<Rightarrow> int \<Rightarrow> int \<Rightarrow> string \<Rightarrow> error + canvasse" where
  "drawRectToDisplay P c x y w h color =
     (case el c of
        None \<Rightarrow> Inl TypeError
      | Some d \<Rightarrow>
          Inr (c\<lparr> el := Some (fillRect P (setFillStyle P d color) x y w h),
                  isDisplayDirty := True \<rparr>))"

definition clearRectFromDisplay :: "canvasse \<Rightarrow> int \<Rightarrow> int \<Rightarrow> int \<Rightarrow> int \<Rightarrow> error + canvasse" where
  "clearRectFromDisplay c x y w h =
     (case el c of
        None \<Rightarrow> Inl TypeError
      | Some d \<Rightarrow> Inr (c\<lparr> el := Some (clearRect d x y w h), isDisplayDirty := True \<rparr>))"

definition drawTileToBuffer :: "platform \<Rightarrow> canvasse \<Rightarrow> int \<Rightarrow> int \<Rightarrow> string \<Rightarrow> error + canvasse" where
  "drawTileToBuffer P c x y color =
     (case bufferEl c of
        None \<Rightarrow> Inl TypeError
      | Some b \<Rightarrow>
          Inr (c\<lparr> bufferEl := Some (fillRect P (setFillStyle P b color) x y 1 1),
                  isBufferDirty := True \<rparr>))"

definition drawBufferToDisplay :: "platform \<Rightarrow> canvasse \<Rightarrow> error + canvasse" where
  "drawBufferToDisplay P c =
     (case (el c, bufferEl c) of
        (Some d, Some b) \<Rightarrow>
          bindE (drawImage P d b (width c) (height c))
            (\<lambda>d'. Inr (c\<lparr> el := Some d', isBufferDirty := False \<rparr>))
      | _ \<Rightarrow> Inl TypeError)"

definition drawDisplayToBuffer :: "platform \<Rightarrow> canvasse \<Rightarrow> error + canvasse" where
  "drawDisplayToBuffer P c =
     (case (el c, bufferEl c) of
        (Some d, Some b) \<Rightarrow>
          bindE (drawImage P b d (width c) (height c))
            (\<lambda>b'. Inr (c\<lparr> bufferEl := Some b', isDisplayDirty := False \<rparr>))
      | _ \<Rightarrow> Inl TypeError)"

definition drawTileAt :: "platform \<Rightarrow> canvasse \<Rightarrow> int \<Rightarrow> int \<Rightarrow> string \<Rightarrow> error + canvasse" where
  "drawTileAt P c x y color = bindE (drawTileToBuffer P c x y color) (drawBufferToDisplay P)"

type_synonym pixelState = "int \<times> int \<times> string"

definition flatIndex :: "int \<Rightarrow> int \<Rightarrow> int \<Rightarrow> int" where
  "flatIndex w x y = 4 * (y * w + x)"

text \<open>The body of the \<^verbatim>\<open>forEach\<close> in \<^verbatim>\<open>writeStateToBuffer\<close>.\<close>

definition writePixelState :: "int \<Rightarrow> int list \<Rightarrow> pixelState \<Rightarrow> int list" where
  "writePixelState w pixelData pixelState =
     (case pixelState of (x, y, hexColor) \<Rightarrow>
        let color = parseHexColor hexColor;
            i = flatIndex w x y;
            a0 = setByte pixelData i (red color);
            a1 = setByte a0 (i + 1) (green color);
            a2 = setByte a1 (i + 2) (blue color)
        in setByte a2 (i + 3) 255)"

definition writeStateToBuffer :: "canvasse \<Rightarrow> pixelState list \<Rightarrow> error + canvasse" where
  "writeStateToBuffer c state =
     (let w = width c; h = height c; pixelDataLength = 4 * w * h in
      bindE (newUint8ClampedArray pixelDataLength) (\<lambda>pixelData0.
        let pixelData = foldl (writePixelState w) pixelData0 state in
        bindE (newImageData pixelData w h) (\<lambda>imageData.
          case bufferEl c of
            None \<Rightarrow> Inl TypeError
          | Some b \<Rightarrow> Inr (c\<lparr> bufferEl := Some (putImageData b imageData) \<rparr>))))"

subsection \<open>Sequences of calls\<close>

datatype operation =
    DrawTileAt int int string
  | DrawTileToDisplay int int string
  | DrawRectToDisplay int int int int string
  | ClearRectFromDisplay int int int int
  | DrawTileToBuffer int int string
  | DrawBufferToDisplay
  | DrawDisplayToBuffer
  | WriteStateToBuffer "pixelState list"

definition orElse :: "error + canvasse \<Rightarrow> canvasse \<Rightarrow> canvasse" where
  "orElse r c = (case r of Inl e \<Rightarrow> c | Inr c' \<Rightarrow> c')"

text \<open>
  The object after a call that may have raised. Each function but \<^verbatim>\<open>drawTileAt\<close>
  assigns to the object only after its last call that can raise, so a call that raises
  leaves the object as it was; \<^verbatim>\<open>drawTileAt\<close> is its two calls in sequence.
\<close>

fun step :: "platform \<Rightarrow> canvasse \<Rightarrow> operation \<Rightarrow> canvasse" where
  "step P c (DrawTileAt x y color) =
     (case drawTileToBuffer P c x y color of
        Inl e \<Rightarrow> c
      | Inr c1 \<Rightarrow> orElse (drawBufferToDisplay P c1) c1)"
| "step P c (DrawTileToDisplay x y color) = orElse (drawTileToDisplay P c x y color) c"
| "step P c (DrawRectToDisplay x y w h color) = orElse (drawRectToDisplay P c x y w h color) c"
| "step P c (ClearRectFromDisplay x y w h) = orElse (clearRectFromDisplay c x y w h) c"
| "step P c (DrawTileToBuffer x y color) = orElse (drawTileToBuffer P c x y color) c"
| "step P c DrawBufferToDisplay = orElse (drawBufferToDisplay P c) c"
| "step P c DrawDisplayToBuffer = orElse (drawDisplayToBuffer P c) c"
| "step P c (WriteStateToBuffer state) = orElse (writeStateToBuffer c state) c"

subsection \<open>Vocabulary of the properties\<close>

text \<open>A surface that is a \<open>w\<close> by \<open>h\<close> grid of pixels.\<close>

definition sized :: "int \<Rightarrow> int \<Rightarrow> surface \<Rightarrow> bool" where
  "sized w h s = (cwidth s = w \<and> cheight s = h \<and> length (bitmap s) = nat w * nat h)"

text \<open>
  Both surfaces are bound and are grids of \<open>w\<close> by \<open>h\<close> pixels, and \<open>w\<close> and \<open>h\<close> are the
  width and height the object records.
\<close>

definition pairOf :: "int \<Rightarrow> int \<Rightarrow> canvasse \<Rightarrow> bool" where
  "pairOf w h c =
     (width c = w \<and> height c = h \<and>
      (case el c of None \<Rightarrow> False | Some d \<Rightarrow> sized w h d) \<and>
      (case bufferEl c of None \<Rightarrow> False | Some b \<Rightarrow> sized w h b))"

text \<open>The part of it about the dimensions alone.\<close>

definition sameDimensions :: "int \<Rightarrow> int \<Rightarrow> canvasse \<Rightarrow> bool" where
  "sameDimensions w h c =
     (case (el c, bufferEl c) of
        (Some d, Some b) \<Rightarrow> cwidth d = w \<and> cheight d = h \<and> cwidth b = w \<and> cheight b = h
      | _ \<Rightarrow> False)"

text \<open>An initialized pair: the dimensions are positive.\<close>

definition initialized :: "canvasse \<Rightarrow> bool" where
  "initialized c = (0 < width c \<and> 0 < height c \<and> pairOf (width c) (height c) c)"

definition displayPixel :: "canvasse \<Rightarrow> int \<Rightarrow> int \<Rightarrow> pixel" where
  "displayPixel c x y = (case el c of None \<Rightarrow> transparent | Some d \<Rightarrow> pixelAt d x y)"

definition bufferPixel :: "canvasse \<Rightarrow> int \<Rightarrow> int \<Rightarrow> pixel" where
  "bufferPixel c x y = (case bufferEl c of None \<Rightarrow> transparent | Some b \<Rightarrow> pixelAt b x y)"

definition displayBitmap :: "canvasse \<Rightarrow> pixel list" where
  "displayBitmap c = (case el c of None \<Rightarrow> [] | Some d \<Rightarrow> bitmap d)"

definition bufferBitmap :: "canvasse \<Rightarrow> pixel list" where
  "bufferBitmap c = (case bufferEl c of None \<Rightarrow> [] | Some b \<Rightarrow> bitmap b)"

definition inGrid :: "int \<Rightarrow> int \<Rightarrow> int \<Rightarrow> int \<Rightarrow> bool" where
  "inGrid w h x y = (0 \<le> x \<and> x < w \<and> 0 \<le> y \<and> y < h)"

definition updateInGrid :: "int \<Rightarrow> int \<Rightarrow> pixelState \<Rightarrow> bool" where
  "updateInGrid w h u = inGrid w h (fst u) (fst (snd u))"

definition targets :: "int \<Rightarrow> int \<Rightarrow> pixelState \<Rightarrow> bool" where
  "targets x y u = (fst u = x \<and> fst (snd u) = y)"

text \<open>The colour string of the last update of the list that targets \<open>(x, y)\<close>.\<close>

definition lastUpdate :: "pixelState list \<Rightarrow> int \<Rightarrow> int \<Rightarrow> string option" where
  "lastUpdate state x y =
     (case filter (targets x y) state of [] \<Rightarrow> None | u # us \<Rightarrow> Some (snd (snd (last (u # us)))))"

definition opaque :: "Color \<Rightarrow> pixel" where
  "opaque c = RGBA (red c) (green c) (blue c) 255"

text \<open>
  The pixel the specification gives a materialized list at \<open>(x, y)\<close>: the parsed colour
  of the last update there, opaque, and transparent black where there is none.
\<close>

definition materialized :: "pixelState list \<Rightarrow> int \<Rightarrow> int \<Rightarrow> pixel" where
  "materialized state x y =
     (case lastUpdate state x y of None \<Rightarrow> RGBA 0 0 0 0 | Some hexColor \<Rightarrow> opaque (parseHexColor hexColor))"

text \<open>A colour string of the form \<^verbatim>\<open>#RRGGBB\<close>.\<close>

definition isHexColor6 :: "string \<Rightarrow> bool" where
  "isHexColor6 s = (length s = 7 \<and> take 1 s = ''#'' \<and> list_all isHexDigit (drop 1 s))"

text \<open>
  A platform to evaluate examples on: it knows no colour syntax but \<^verbatim>\<open>#RRGGBB\<close>, and
  the two other parameters are not reached by opaque colours on surfaces of one size.
\<close>

definition plainPlatform :: platform where
  "plainPlatform =
     \<lparr> cssOther = (\<lambda>s. None), blend = (\<lambda>src dst. src), resample = (\<lambda>src dw dh dst. bitmap dst) \<rparr>"

text \<open>The pixel number \<open>k\<close> of an array of bytes, four bytes a pixel.\<close>

definition bytesPixel :: "int list \<Rightarrow> nat \<Rightarrow> pixel" where
  "bytesPixel a k = RGBA (a ! (4 * k)) (a ! (4 * k + 1)) (a ! (4 * k + 2)) (a ! (4 * k + 3))"

text \<open>The object after \<^verbatim>\<open>init(el, 1, 1)\<close> on a fresh canvas element, for the examples.\<close>

definition pair1 :: canvasse where
  "pair1 = orElse (init canvasse0 createCanvas 1 1) canvasse0"

text \<open>
  More objects for the examples: after \<^verbatim>\<open>init(el, 2, 2)\<close>; after \<^verbatim>\<open>init(el, 1, 1)\<close> and
  \<^verbatim>\<open>drawTileToBuffer(0, 0, '#ff0000')\<close>; after \<^verbatim>\<open>init(el, 1, 1)\<close> and
  \<^verbatim>\<open>drawTileToDisplay(0, 0, '#0000ff')\<close>.
\<close>

definition pair2 :: canvasse where
  "pair2 = orElse (init canvasse0 createCanvas 2 2) canvasse0"

definition redTile :: canvasse where
  "redTile = orElse (drawTileToBuffer plainPlatform pair1 0 0 ''#ff0000'') pair1"

definition blueDisplay :: canvasse where
  "blueDisplay = orElse (drawTileToDisplay plainPlatform pair1 0 0 ''#0000ff'') pair1"

section \<open>utils.js\<close>

subsection \<open>bindEvents\<close>

text \<open>
  The event listener list of a target: type, callback and capture flag of each
  listener. \<^verbatim>\<open>addEventListener\<close> appends a listener unless the list has one with the
  same type, callback and capture flag.
\<close>

type_synonym 'h listener = "string \<times> 'h \<times> bool"

definition addEventListener :: "'h listener list \<Rightarrow> string \<Rightarrow> 'h \<Rightarrow> bool \<Rightarrow> 'h listener list" where
  "addEventListener target event handler capture =
     (if (event, handler, capture) \<in> set target then target
      else target @ [(event, handler, capture)])"

text \<open>
  \<^verbatim>\<open>eventsDict\<close> is the list of the enumerable properties of the dictionary, in the
  order of the \<^verbatim>\<open>for ... in\<close>; \<^verbatim>\<open>useCapture\<close> is \<open>None\<close> when the argument is omitted.
\<close>

definition bindEvents ::
  "'h listener list \<Rightarrow> (string \<times> 'h) list \<Rightarrow> bool option \<Rightarrow> 'h listener list" where
  "bindEvents target eventsDict useCapture =
     (let useCapture' = (case useCapture of None \<Rightarrow> True | Some b \<Rightarrow> b) in
      foldl (\<lambda>t (event, handler). addEventListener t event handler True) target eventsDict)"

subsection \<open>hijack\<close>

text \<open>
  Objects live in a heap and are maps from property names to values. A value is
  \<^verbatim>\<open>undefined\<close>, some data, an error object, a function of the program (known by a
  name of type \<open>'f\<close>), or the closure \<^verbatim>\<open>hijack\<close> creates, which captures \<^verbatim>\<open>target\<close>,
  \<^verbatim>\<open>targetMethod\<close> and \<^verbatim>\<open>fn\<close>.
\<close>

type_synonym ref = nat

datatype ('f, 'v) jsval =
    Undefined
  | Data 'v
  | ErrorObject error
  | Function 'f
  | Hijacked ref "('f, 'v) jsval" "('f, 'v) jsval"

type_synonym ('f, 'v) object = "string \<Rightarrow> ('f, 'v) jsval option"

type_synonym ('f, 'v) heap = "ref \<Rightarrow> ('f, 'v) object"

text \<open>A call returns a value, throws one, or does not come back.\<close>

datatype ('f, 'v) completion =
    Returns "('f, 'v) jsval" "('f, 'v) heap"
  | Throws "('f, 'v) jsval" "('f, 'v) heap"
  | Diverges

text \<open>
  What a function of the program does when applied to a receiver and arguments in a
  heap is a parameter: it may read and change the heap, call \<^verbatim>\<open>this.targetMethod\<close>,
  throw, or loop.
\<close>

type_synonym ('f, 'v) program =
  "'f \<Rightarrow> ref \<Rightarrow> ('f, 'v) jsval list \<Rightarrow> ('f, 'v) heap \<Rightarrow> ('f, 'v) completion"

definition getProp :: "('f, 'v) heap \<Rightarrow> ref \<Rightarrow> string \<Rightarrow> ('f, 'v) jsval" where
  "getProp h r k = (case h r k of None \<Rightarrow> Undefined | Some v \<Rightarrow> v)"

definition setProp :: "('f, 'v) heap \<Rightarrow> ref \<Rightarrow> string \<Rightarrow> ('f, 'v) jsval \<Rightarrow> ('f, 'v) heap" where
  "setProp h r k v = h(r := (h r)(k \<mapsto> v))"

definition deleteProp :: "('f, 'v) heap \<Rightarrow> ref \<Rightarrow> string \<Rightarrow> ('f, 'v) heap" where
  "deleteProp h r k = h(r := (h r)(k := None))"

text \<open>
  \<^verbatim>\<open>f.apply(receiver, args)\<close>. The second equation is the body of the function
  \<^verbatim>\<open>hijack\<close> installs: it has no \<^verbatim>\<open>return\<close>, and no \<^verbatim>\<open>try\<close> around the call of \<^verbatim>\<open>fn\<close>.
\<close>

fun apply_js ::
  "('f, 'v) program \<Rightarrow> ('f, 'v) jsval \<Rightarrow> ref \<Rightarrow> ('f, 'v) jsval list \<Rightarrow> ('f, 'v) heap
     \<Rightarrow> ('f, 'v) completion" where
  "apply_js prog (Function f) receiver args h = prog f receiver args h"
| "apply_js prog (Hijacked target targetMethod fn) receiver args h =
     (case apply_js prog fn target args (setProp h target ''targetMethod'' targetMethod) of
        Returns res h' \<Rightarrow> Returns Undefined (deleteProp h' target ''targetMethod'')
      | Throws e h' \<Rightarrow> Throws e h'
      | Diverges \<Rightarrow> Diverges)"
| "apply_js prog Undefined receiver args h = Throws (ErrorObject TypeError) h"
| "apply_js prog (Data d) receiver args h = Throws (ErrorObject TypeError) h"
| "apply_js prog (ErrorObject e) receiver args h = Throws (ErrorObject TypeError) h"

definition hijack :: "('f, 'v) heap \<Rightarrow> ref \<Rightarrow> string \<Rightarrow> ('f, 'v) jsval \<Rightarrow> ('f, 'v) heap" where
  "hijack h target methodName fn =
     (let targetMethod = getProp h target methodName
      in setProp h target methodName (Hijacked target targetMethod fn))"

text \<open>A program for the examples: every function of it returns 42.\<close>

definition answers42 :: "(nat, int) program" where
  "answers42 f receiver args h = Returns (Data 42) h"

section \<open>Properties of canvasse.js\<close>

subsection \<open>Pixels and indices\<close>

lemma grid_index:
  assumes "0 \<le> x" "x < w" "0 \<le> y" "y < h"
  shows "nat (y * w + x) < nat w * nat h"
    and "int (nat (y * w + x)) mod w = x"
    and "int (nat (y * w + x)) div w = y"
proof -
  have w: "0 < w" using assms by linarith
  have nn: "0 \<le> y * w + x" using assms w by simp
  have "y * w + x < h * w"
  proof -
    have "y + 1 \<le> h" using assms by simp
    then have "(y + 1) * w \<le> h * w" using w by (simp add: mult_right_mono)
    then show ?thesis using assms by (simp add: algebra_simps)
  qed
  then have "y * w + x < w * h" by (simp add: mult.commute)
  moreover have "0 \<le> h" using assms by linarith
  ultimately show "nat (y * w + x) < nat w * nat h"
    using w nn by (simp add: nat_mult_distrib[symmetric] nat_less_iff)
  show "int (nat (y * w + x)) mod w = x" using nn assms by simp
  show "int (nat (y * w + x)) div w = y" using nn assms w by simp
qed

lemma mapPixels_fields [simp]:
  "cwidth (mapPixels f s) = cwidth s"
  "cheight (mapPixels f s) = cheight s"
  "fillStyle (mapPixels f s) = fillStyle s"
  "length (bitmap (mapPixels f s)) = length (bitmap s)"
  by (simp_all add: mapPixels_def)

lemma sized_mapPixels: "sized w h s \<Longrightarrow> sized w h (mapPixels f s)"
  by (simp add: sized_def)

lemma nth_mapPixels:
  "i < length (bitmap s) \<Longrightarrow>
   bitmap (mapPixels f s) ! i = f (int i mod cwidth s) (int i div cwidth s) (bitmap s ! i)"
  by (simp add: mapPixels_def)

lemma pixelAt_mapPixels:
  assumes "sized w h s" "inGrid w h x y"
  shows "pixelAt (mapPixels f s) x y = f x y (pixelAt s x y)"
proof -
  have b: "0 \<le> x" "x < w" "0 \<le> y" "y < h" using assms(2) by (simp_all add: inGrid_def)
  have s: "cwidth s = w" "cheight s = h" "length (bitmap s) = nat w * nat h"
    using assms(1) by (simp_all add: sized_def)
  have i: "nat (y * w + x) < length (bitmap s)" using grid_index(1)[OF b] s by simp
  show ?thesis
    using b s nth_mapPixels[OF i, of f] grid_index(2)[OF b] grid_index(3)[OF b]
    by (simp add: pixelAt_def inBounds_def)
qed

lemma index_grid:
  assumes lt: "i < nat w * nat h"
  shows "inGrid w h (int i mod w) (int i div w)"
    and "int i div w * w + int i mod w = int i"
proof -
  have w: "0 < w" and h: "0 < h" using lt by (auto simp: zero_less_mult_iff intro: ccontr)
  have "nat w * nat h = nat (w * h)" using w by (simp add: nat_mult_distrib)
  then have "int i < w * h" using lt by linarith
  then have lt': "int i < w * h" .
  have m: "0 \<le> int i mod w" "int i mod w < w" using w by simp_all
  have e: "w * (int i div w) + int i mod w = int i" by simp
  have "int i div w < h"
  proof (rule ccontr)
    assume "\<not> int i div w < h"
    then have "w * h \<le> w * (int i div w)" using w by (simp add: mult_left_mono)
    then show False using e m lt' by linarith
  qed
  moreover have "0 \<le> int i div w" using w by (simp add: pos_imp_zdiv_nonneg_iff)
  ultimately show "inGrid w h (int i mod w) (int i div w)" using m by (simp add: inGrid_def)
  show "int i div w * w + int i mod w = int i" by simp
qed

lemma pixelAt_nth:
  assumes "sized w h s" "i < length (bitmap s)"
  shows "pixelAt s (int i mod w) (int i div w) = bitmap s ! i"
proof -
  have s: "cwidth s = w" "cheight s = h" "length (bitmap s) = nat w * nat h"
    using assms(1) by (simp_all add: sized_def)
  have lt: "i < nat w * nat h" using assms s by simp
  show ?thesis
    using index_grid[OF lt] s by (simp add: pixelAt_def inBounds_def inGrid_def)
qed

subsection \<open>Writing a state into the byte array\<close>

lemma length_setByte [simp]: "length (setByte a i v) = length a"
  by (simp add: setByte_def)

lemma length_writePixelState [simp]: "length (writePixelState w a u) = length a"
  by (cases u) (simp add: writePixelState_def Let_def)

lemma length_foldl_write [simp]: "length (foldl (writePixelState w) a state) = length a"
  by (induction state arbitrary: a) simp_all

lemma parseHexColor_range:
  "0 \<le> red (parseHexColor s)" "red (parseHexColor s) \<le> 255"
  "0 \<le> green (parseHexColor s)" "green (parseHexColor s) \<le> 255"
  "0 \<le> blue (parseHexColor s)" "blue (parseHexColor s) \<le> 255"
  by (simp_all add: parseHexColor_def Let_def)

lemma clamp8_id: "0 \<le> v \<Longrightarrow> v \<le> 255 \<Longrightarrow> clamp8 v = v"
  by (simp add: clamp8_def)

lemma bytesPixel_write:
  assumes len: "length a = 4 * n" and k: "k < n" and k': "k' < n"
    and i: "flatIndex w x y = int (4 * k)"
  shows "bytesPixel (writePixelState w a (x, y, col)) k' =
         (if k' = k then opaque (parseHexColor col) else bytesPixel a k')"
proof -
  have r: "4 * k < length a" "4 * k + 1 < length a" "4 * k + 2 < length a" "4 * k + 3 < length a"
    using len k by simp_all
  have n: "nat (int (4 * k)) = 4 * k" "nat (int (4 * k) + 1) = 4 * k + 1"
    "nat (int (4 * k) + 2) = 4 * k + 2" "nat (int (4 * k) + 3) = 4 * k + 3"
    by simp_all
  have c: "clamp8 (red (parseHexColor col)) = red (parseHexColor col)"
    "clamp8 (green (parseHexColor col)) = green (parseHexColor col)"
    "clamp8 (blue (parseHexColor col)) = blue (parseHexColor col)"
    "clamp8 255 = 255"
    by (simp_all add: clamp8_id parseHexColor_range)
  have w: "writePixelState w a (x, y, col) =
      a[4 * k := red (parseHexColor col), 4 * k + 1 := green (parseHexColor col),
        4 * k + 2 := blue (parseHexColor col), 4 * k + 3 := 255]"
    using r n c by (simp add: writePixelState_def Let_def i setByte_def)
  show ?thesis
  proof (cases "k' = k")
    case True
    then show ?thesis using r by (simp add: w bytesPixel_def opaque_def)
  next
    case False
    then have "4 * k' + j \<noteq> 4 * k + j'" if "j < 4" "j' < 4" for j j' using that by arith
    then have d: "4 * k' \<noteq> 4 * k" "4 * k' \<noteq> 4 * k + 1" "4 * k' \<noteq> 4 * k + 2" "4 * k' \<noteq> 4 * k + 3"
      "4 * k' + 1 \<noteq> 4 * k" "4 * k' + 1 \<noteq> 4 * k + 1" "4 * k' + 1 \<noteq> 4 * k + 2" "4 * k' + 1 \<noteq> 4 * k + 3"
      "4 * k' + 2 \<noteq> 4 * k" "4 * k' + 2 \<noteq> 4 * k + 1" "4 * k' + 2 \<noteq> 4 * k + 2" "4 * k' + 2 \<noteq> 4 * k + 3"
      "4 * k' + 3 \<noteq> 4 * k" "4 * k' + 3 \<noteq> 4 * k + 1" "4 * k' + 3 \<noteq> 4 * k + 2" "4 * k' + 3 \<noteq> 4 * k + 3"
      using False by presburger+
    show ?thesis using False d by (simp add: w bytesPixel_def)
  qed
qed

lemma lastUpdate_snoc:
  "lastUpdate (state @ [u]) x y =
     (if targets x y u then Some (snd (snd u)) else lastUpdate state x y)"
proof (cases "targets x y u")
  case True
  obtain v vs where f: "filter (targets x y) state @ [u] = v # vs"
    by (cases "filter (targets x y) state") auto
  have "last (v # vs) = u" using f[symmetric] by simp
  then show ?thesis using True f by (simp add: lastUpdate_def)
next
  case False
  then show ?thesis by (simp add: lastUpdate_def)
qed

lemma materialized_snoc:
  "materialized (state @ [u]) x y =
     (if targets x y u then opaque (parseHexColor (snd (snd u))) else materialized state x y)"
  by (simp add: materialized_def lastUpdate_snoc)

lemma materialized_Nil [simp]: "materialized [] x y = RGBA 0 0 0 0"
  by (simp add: materialized_def lastUpdate_def)

lemma grid_index_inj:
  assumes "inGrid w h x y" "inGrid w h x' y'" "nat (y * w + x) = nat (y' * w + x')"
  shows "x = x' \<and> y = y'"
proof -
  have a: "0 \<le> x" "x < w" "0 \<le> y" "y < h" using assms(1) by (simp_all add: inGrid_def)
  have b: "0 \<le> x'" "x' < w" "0 \<le> y'" "y' < h" using assms(2) by (simp_all add: inGrid_def)
  show ?thesis
    using grid_index(2)[OF a] grid_index(3)[OF a] grid_index(2)[OF b] grid_index(3)[OF b] assms(3)
    by simp
qed

lemma foldl_write_pixel:
  assumes "0 < w" "0 < h" "list_all (updateInGrid w h) state" "inGrid w h x y"
  shows "bytesPixel (foldl (writePixelState w) (replicate (4 * (nat w * nat h)) 0) state)
           (nat (y * w + x)) = materialized state x y"
  using assms(3)
proof (induction state rule: rev_induct)
  case Nil
  have b: "0 \<le> x" "x < w" "0 \<le> y" "y < h" using assms(4) by (simp_all add: inGrid_def)
  have "nat (y * w + x) < nat w * nat h" by (rule grid_index(1)[OF b])
  then show ?case by (simp add: bytesPixel_def)
next
  case (snoc u state)
  obtain x' y' col where u: "u = (x', y', col)" by (cases u) auto
  have g: "inGrid w h x' y'" using snoc.prems by (simp add: u updateInGrid_def)
  have b: "0 \<le> x" "x < w" "0 \<le> y" "y < h" using assms(4) by (simp_all add: inGrid_def)
  have b': "0 \<le> x'" "x' < w" "0 \<le> y'" "y' < h" using g by (simp_all add: inGrid_def)
  let ?a = "foldl (writePixelState w) (replicate (4 * (nat w * nat h)) 0) state"
  have len: "length ?a = 4 * (nat w * nat h)" by simp
  have nn: "0 \<le> y' * w + x'" using b' assms(1) by simp
  have i: "flatIndex w x' y' = int (4 * nat (y' * w + x'))" using nn by (simp add: flatIndex_def)
  have ih: "bytesPixel ?a (nat (y * w + x)) = materialized state x y"
    using snoc by simp
  have eq: "(nat (y * w + x) = nat (y' * w + x')) = targets x y u"
    using grid_index_inj[OF assms(4) g] by (auto simp: targets_def u)
  show ?case
    using bytesPixel_write[OF len grid_index(1)[OF b'] grid_index(1)[OF b] i, of col] ih eq
    by (simp add: u materialized_snoc)
qed

lemma writeStateToBuffer_cases:
  assumes "writeStateToBuffer c state = Inr c'"
  obtains b img where "bufferEl c = Some b" "c' = c\<lparr> bufferEl := Some (putImageData b img) \<rparr>"
  using assms
  by (auto simp: writeStateToBuffer_def Let_def bindE_def split: sum.splits option.splits)

lemma nat_area: "0 < w \<Longrightarrow> 0 < h \<Longrightarrow> nat (4 * w * h) = 4 * (nat w * nat h)"
  by (simp add: nat_mult_distrib mult.assoc)

lemma newImageData_ok:
  assumes "0 < w" "0 < h" "length d = 4 * (nat w * nat h)"
  shows "newImageData d w h = Inr \<lparr> iwidth = w, iheight = h, idata = d \<rparr>"
proof -
  have n: "int (length d) = 4 * (w * h)" using assms by (simp add: nat_mult_distrib)
  have "0 < w * h" using assms by simp
  then show ?thesis using assms(1) assms(2) by (simp add: newImageData_def Let_def n)
qed

lemma writeStateToBuffer_ok:
  assumes "initialized c" "bufferEl c = Some b"
  shows "writeStateToBuffer c state =
     Inr (c\<lparr> bufferEl := Some (putImageData b
       \<lparr> iwidth = width c, iheight = height c,
         idata = foldl (writePixelState (width c))
                   (replicate (4 * (nat (width c) * nat (height c))) 0) state \<rparr>) \<rparr>)"
proof -
  have p: "0 < width c" "0 < height c" using assms(1) by (simp_all add: initialized_def)
  have "0 < width c * height c" using p by simp
  then have "\<not> width c * height c < 0" by simp
  then show ?thesis
    using p assms(2)
    by (simp add: writeStateToBuffer_def Let_def bindE_def newUint8ClampedArray_def
        nat_area newImageData_ok)
qed

lemma imagePixel_bytes:
  assumes "0 \<le> y * w + x"
  shows "imagePixel \<lparr> iwidth = w, iheight = h, idata = d \<rparr> x y = bytesPixel d (nat (y * w + x))"
proof -
  have "nat (4 * (y * w + x)) = 4 * nat (y * w + x)" using assms by (simp add: nat_mult_distrib)
  then show ?thesis by (simp add: imagePixel_def bytesPixel_def Let_def)
qed

lemma pixelAt_putImageData:
  assumes "sized w h s" "inGrid w h x y"
  shows "pixelAt (putImageData s \<lparr> iwidth = w, iheight = h, idata = d \<rparr>) x y
           = bytesPixel d (nat (y * w + x))"
proof -
  have b: "0 \<le> x" "x < w" "0 \<le> y" "y < h" using assms(2) by (simp_all add: inGrid_def)
  then have "0 < w" by linarith
  then have "0 \<le> y * w + x" using b by simp
  then show ?thesis
    using b by (simp add: putImageData_def pixelAt_mapPixels[OF assms] imagePixel_bytes)
qed

lemma initialized_buffer:
  assumes "initialized c"
  obtains d b where "el c = Some d" "bufferEl c = Some b"
    "sized (width c) (height c) d" "sized (width c) (height c) b"
  using assms by (auto simp: initialized_def pairOf_def split: option.splits)

lemma bufferPixel_writeState:
  assumes "initialized c" "list_all (updateInGrid (width c) (height c)) state"
    "inGrid (width c) (height c) x y" "writeStateToBuffer c state = Inr c'"
  shows "bufferPixel c' x y = materialized state x y"
proof -
  obtain d b where s: "bufferEl c = Some b" "sized (width c) (height c) b"
    using initialized_buffer[OF assms(1)] by blast
  have p: "0 < width c" "0 < height c" using assms(1) by (simp_all add: initialized_def)
  show ?thesis
    using assms(4) writeStateToBuffer_ok[OF assms(1) s(1), of state]
      pixelAt_putImageData[OF s(2) assms(3)] foldl_write_pixel[OF p assms(2) assms(3)]
    by (auto simp: bufferPixel_def)
qed

lemma initialized_writeState:
  assumes "initialized c" "writeStateToBuffer c state = Inr c'"
  shows "initialized c'"
  using assms
  by (auto elim!: writeStateToBuffer_cases
      simp: initialized_def pairOf_def putImageData_def sized_mapPixels split: option.splits)

lemma materialized_alpha:
  "(alpha (materialized state x y) \<noteq> 0) = (\<exists>col. (x, y, col) \<in> set state)"
proof -
  have "(filter (targets x y) state = []) = (\<not> (\<exists>col. (x, y, col) \<in> set state))"
    by (auto simp: filter_empty_conv targets_def)
  then show ?thesis
    by (auto simp: materialized_def lastUpdate_def alpha_def opaque_def split: list.splits)
qed

lemma bufferBitmap_empty:
  assumes "initialized c" "writeStateToBuffer c [] = Inr c'"
  shows "bufferBitmap c' = replicate (nat (width c) * nat (height c)) (RGBA 0 0 0 0)"
proof -
  obtain d b where s: "bufferEl c = Some b" "sized (width c) (height c) b"
    using initialized_buffer[OF assms(1)] by blast
  have c': "initialized c'" by (rule initialized_writeState[OF assms])
  have wh: "width c' = width c" "height c' = height c"
    using assms(2) by (auto elim!: writeStateToBuffer_cases)
  obtain d' b' where s': "bufferEl c' = Some b'" "sized (width c) (height c) b'"
    using initialized_buffer[OF c'] wh by metis
  have len: "length (bitmap b') = nat (width c) * nat (height c)"
    using s'(2) by (simp add: sized_def)
  have "bitmap b' ! i = RGBA 0 0 0 0" if i: "i < length (bitmap b')" for i
  proof -
    let ?x = "int i mod width c" and ?y = "int i div width c"
    have e: "pixelAt b' ?x ?y = bitmap b' ! i" by (rule pixelAt_nth[OF s'(2) i])
    have g: "inGrid (width c) (height c) ?x ?y" using i len index_grid(1) by simp
    have "bufferPixel c' ?x ?y = materialized [] ?x ?y"
      by (rule bufferPixel_writeState[OF assms(1) _ g assms(2)]) simp
    then show ?thesis using e s'(1) by (simp add: bufferPixel_def)
  qed
  then show ?thesis using len s'(1) by (simp add: bufferBitmap_def list_eq_iff_nth_eq)
qed

lemma surface_reset:
  "setHeight (setWidth e w) h =
     \<lparr> cwidth = canvasDim 300 w, cheight = canvasDim 150 h,
       bitmap = blank (canvasDim 300 w) (canvasDim 150 h), fillStyle = RGBA 0 0 0 255 \<rparr>"
  by (cases e) (simp add: setHeight_def setWidth_def)

lemma init_result:
  "init c e w h =
     Inr (c\<lparr> width := w, height := h,
             el := Some \<lparr> cwidth = canvasDim 300 w, cheight = canvasDim 150 h,
                          bitmap = blank (canvasDim 300 w) (canvasDim 150 h),
                          fillStyle = RGBA 0 0 0 255 \<rparr>,
             bufferEl := Some \<lparr> cwidth = canvasDim 300 w, cheight = canvasDim 150 h,
                          bitmap = blank (canvasDim 300 w) (canvasDim 150 h),
                          fillStyle = RGBA 0 0 0 255 \<rparr> \<rparr>)"
  by (simp add: init_def surface_reset)

subsection \<open>Materialization\<close>

text \<open>
  Claim C1. On an initialized pair (width and height positive, both surfaces of that
  size) and a list of updates with all coordinates in the grid, \<^verbatim>\<open>writeStateToBuffer\<close>
  returns, and every pixel of the buffer is then the parsed colour of the last update
  of the list at its coordinate, with alpha 255, and transparent black at a coordinate
  no update targets. The empty list leaves every byte of the buffer zero. A second
  call leaves the pixels of its own list only: a pixel is not transparent exactly when
  the second list targets it.
\<close>

theorem writeStateToBuffer_materializes:
  assumes "initialized c" and "list_all (updateInGrid (width c) (height c)) state"
  shows "\<exists>c'. writeStateToBuffer c state = Inr c' \<and>
           (\<forall>x y. inGrid (width c) (height c) x y \<longrightarrow>
              bufferPixel c' x y = materialized state x y) \<and>
           (state = [] \<longrightarrow>
              bufferBitmap c' = replicate (nat (width c) * nat (height c)) (RGBA 0 0 0 0)) \<and>
           (\<forall>state2. list_all (updateInGrid (width c) (height c)) state2 \<longrightarrow>
              (\<exists>c''. writeStateToBuffer c' state2 = Inr c'' \<and>
                 (\<forall>x y. inGrid (width c) (height c) x y \<longrightarrow>
                    bufferPixel c'' x y = materialized state2 x y \<and>
                    (alpha (bufferPixel c'' x y) \<noteq> 0) = (\<exists>col. (x, y, col) \<in> set state2))))"
proof -
  obtain d b where b: "bufferEl c = Some b"
    using initialized_buffer[OF assms(1)] by blast
  from writeStateToBuffer_ok[OF assms(1) b, of state]
  obtain c' where c': "writeStateToBuffer c state = Inr c'" by blast
  have i': "initialized c'" by (rule initialized_writeState[OF assms(1) c'])
  have wh: "width c' = width c" "height c' = height c"
    using c' by (auto elim!: writeStateToBuffer_cases)
  have 1: "\<forall>x y. inGrid (width c) (height c) x y \<longrightarrow> bufferPixel c' x y = materialized state x y"
    using bufferPixel_writeState[OF assms(1) assms(2) _ c'] by blast
  have 2: "state = [] \<longrightarrow>
      bufferBitmap c' = replicate (nat (width c) * nat (height c)) (RGBA 0 0 0 0)"
    using bufferBitmap_empty[OF assms(1)] c' by blast
  have 3: "\<exists>c''. writeStateToBuffer c' state2 = Inr c'' \<and>
                 (\<forall>x y. inGrid (width c) (height c) x y \<longrightarrow>
                    bufferPixel c'' x y = materialized state2 x y \<and>
                    (alpha (bufferPixel c'' x y) \<noteq> 0) = (\<exists>col. (x, y, col) \<in> set state2))"
    if s2: "list_all (updateInGrid (width c) (height c)) state2" for state2
  proof -
    obtain d' b' where b': "bufferEl c' = Some b'"
      using initialized_buffer[OF i'] by blast
    from writeStateToBuffer_ok[OF i' b', of state2]
    obtain c'' where c'': "writeStateToBuffer c' state2 = Inr c''" by blast
    have "bufferPixel c'' x y = materialized state2 x y"
      if "inGrid (width c) (height c) x y" for x y
      using bufferPixel_writeState[OF i' _ _ c''] s2 that wh by simp
    then show ?thesis using c'' by (auto simp: materialized_alpha)
  qed
  show ?thesis using c' 1 2 3 by blast
qed

lemma example_green: "parseHexColor ''#00ff00'' = \<lparr> red = 0, green = 255, blue = 0 \<rparr>"
  by code_simp

lemma example_red: "parseHexColor ''#ff0000'' = \<lparr> red = 255, green = 0, blue = 0 \<rparr>"
  by code_simp

lemma pair1_eq:
  "pair1 = \<lparr> width = 1, height = 1,
     el = Some \<lparr> cwidth = 1, cheight = 1, bitmap = [RGBA 0 0 0 0], fillStyle = RGBA 0 0 0 255 \<rparr>,
     bufferEl = Some \<lparr> cwidth = 1, cheight = 1, bitmap = [RGBA 0 0 0 0], fillStyle = RGBA 0 0 0 255 \<rparr>,
     isBufferDirty = False, isDisplayDirty = False \<rparr>"
  by (simp add: pair1_def init_result orElse_def canvasse0_def canvasDim_def Let_def blank_def transparent_def)

lemma initialized_pair1: "initialized pair1"
  by (simp add: pair1_eq initialized_def pairOf_def sized_def)

theorem writeStateToBuffer_materializes_witness:
  "initialized pair1 \<and>
   list_all (updateInGrid (width pair1) (height pair1)) [(0, 0, ''#ff0000''), (0, 0, ''#00ff00'')] \<and>
   (\<exists>c'. writeStateToBuffer pair1 [(0, 0, ''#ff0000''), (0, 0, ''#00ff00'')] = Inr c' \<and>
      bufferPixel c' 0 0 = RGBA 0 255 0 255)"
proof -
  let ?st = "[(0, 0, ''#ff0000''), (0, 0, ''#00ff00'')] :: pixelState list"
  have g: "list_all (updateInGrid (width pair1) (height pair1)) ?st"
    by (simp add: pair1_eq updateInGrid_def inGrid_def)
  have m: "materialized ?st 0 0 = RGBA 0 255 0 255"
    by (simp add: materialized_def lastUpdate_def targets_def example_green opaque_def)
  have i: "inGrid (width pair1) (height pair1) 0 0" by (simp add: pair1_eq inGrid_def)
  show ?thesis
    using writeStateToBuffer_materializes[OF initialized_pair1 g] initialized_pair1 g m i
    by auto
qed

subsection \<open>Parsing a colour of the form \<^verbatim>\<open>#RRGGBB\<close>\<close>

lemma hexValue_range: "isHexDigit c \<Longrightarrow> 0 \<le> hexValue c \<and> hexValue c \<le> 15"
  by (auto simp: isHexDigit_def hexValue_def hexDigitValue_def Let_def split: if_splits)

lemma isHexDigit_plain:
  assumes "isHexDigit c"
  shows "\<not> isWhiteSpace c" "c \<noteq> CHR ''-''" "c \<noteq> CHR ''+''" "c \<noteq> CHR ''x''" "c \<noteq> CHR ''X''"
  using assms
  by (auto simp: isHexDigit_def hexDigitValue_def isWhiteSpace_def Let_def split: if_splits)

lemma bitlen_le: "0 \<le> n \<Longrightarrow> n < 2 ^ k \<Longrightarrow> bitlen n \<le> k"
proof (induction k arbitrary: n)
  case 0
  then have "n = 0" by simp
  then show ?case by (simp add: bitlen.simps)
next
  case (Suc k)
  have "n div 2 < 2 ^ k" using Suc.prems by simp
  moreover have "0 \<le> n div 2" using Suc.prems by simp
  ultimately have "bitlen (n div 2) \<le> k" using Suc.IH by blast
  then show ?case by (subst bitlen.simps) simp
qed

lemma roundToDouble_exact: "0 \<le> n \<Longrightarrow> n < 2 ^ 53 \<Longrightarrow> roundToDouble n = Num n"
  using bitlen_le[of n 53] by (simp add: roundToDouble_def)

lemma toInt32_small: "0 \<le> n \<Longrightarrow> n < 2 ^ 31 \<Longrightarrow> toInt32 (Num n) = n"
  by (simp add: toInt32_def Let_def)

lemma and_255_mod: "(v::int) AND 255 = v mod 256"
proof -
  have "v AND mask 8 = v mod 2 ^ 8" by (simp only: take_bit_eq_mask[symmetric] take_bit_eq_mod)
  moreover have "mask 8 = (255::int)" by (simp add: mask_eq_exp_minus_1)
  ultimately show ?thesis by simp
qed

lemma channels_div:
  assumes "0 \<le> r" "r \<le> 255" "0 \<le> g" "g \<le> 255" "0 \<le> b" "b \<le> (255::int)"
  shows "(65536 * r + 256 * g + b) div 65536 = r"
    and "(65536 * r + 256 * g + b) div 256 mod 256 = g"
    and "(65536 * r + 256 * g + b) mod 256 = b"
proof -
  have "(256 * g + b + 65536 * r) div 65536 = r + (256 * g + b) div 65536"
    by (rule div_mult_self2) simp
  moreover have "(256 * g + b) div 65536 = 0" using assms by (simp add: div_pos_pos_trivial)
  ultimately show "(65536 * r + 256 * g + b) div 65536 = r" by (simp add: add.commute add.left_commute)
  have "(b + 256 * (256 * r + g)) div 256 = (256 * r + g) + b div 256"
    by (rule div_mult_self2) simp
  moreover have "b div 256 = 0" using assms by (simp add: div_pos_pos_trivial)
  ultimately have "(65536 * r + 256 * g + b) div 256 = 256 * r + g" by (simp add: algebra_simps)
  moreover have "(g + 256 * r) mod 256 = g" using assms by (simp add: mod_pos_pos_trivial)
  ultimately show "(65536 * r + 256 * g + b) div 256 mod 256 = g" by (simp add: add.commute)
  have e: "65536 * r + 256 * g + b = b + 256 * (256 * r + g)" by simp
  have "(b + 256 * (256 * r + g)) mod 256 = b mod 256" by (rule mod_mult_self2)
  also have "b mod 256 = b" using assms by simp
  finally show "(65536 * r + 256 * g + b) mod 256 = b" by (simp only: e)
qed

lemma channels:
  assumes "0 \<le> r" "r \<le> 255" "0 \<le> g" "g \<le> 255" "0 \<le> b" "b \<le> (255::int)"
  shows "drop_bit 16 (65536 * r + 256 * g + b) AND 255 = r"
    and "drop_bit 8 (65536 * r + 256 * g + b) AND 255 = g"
    and "(65536 * r + 256 * g + b) AND 255 = b"
proof -
  have r: "r mod 256 = r" using assms by simp
  show "drop_bit 16 (65536 * r + 256 * g + b) AND 255 = r"
    using channels_div(1)[OF assms] r by (simp only: and_255_mod drop_bit_eq_div) simp
  show "drop_bit 8 (65536 * r + 256 * g + b) AND 255 = g"
    using channels_div(2)[OF assms] by (simp only: and_255_mod drop_bit_eq_div) simp
  show "(65536 * r + 256 * g + b) AND 255 = b"
    using channels_div(3)[OF assms] by (simp only: and_255_mod)
qed

lemma parseInt16_hex6:
  assumes "list_all isHexDigit [r1, r0, g1, g0, b1, b0]"
  shows "parseInt16 [r1, r0, g1, g0, b1, b0] =
     Num (65536 * (16 * hexValue r1 + hexValue r0) + 256 * (16 * hexValue g1 + hexValue g0)
          + (16 * hexValue b1 + hexValue b0))"
proof -
  have h: "isHexDigit r1" "isHexDigit r0" "isHexDigit g1" "isHexDigit g0" "isHexDigit b1" "isHexDigit b0"
    using assms by simp_all
  note v = h[THEN hexValue_range]
  let ?n = "65536 * (16 * hexValue r1 + hexValue r0) + 256 * (16 * hexValue g1 + hexValue g0)
          + (16 * hexValue b1 + hexValue b0)"
  have s: "stripSign (dropWhile isWhiteSpace [r1, r0, g1, g0, b1, b0]) = (False, [r1, r0, g1, g0, b1, b0])"
    using isHexDigit_plain[OF h(1)] by (simp add: stripSign_def)
  have p: "stripPrefix [r1, r0, g1, g0, b1, b0] = [r1, r0, g1, g0, b1, b0]"
    using isHexDigit_plain[OF h(2)] by (simp add: stripPrefix_def)
  have t: "takeWhile isHexDigit [r1, r0, g1, g0, b1, b0] = [r1, r0, g1, g0, b1, b0]"
    using h by simp
  have f: "foldl (\<lambda>a c. 16 * a + hexValue c) 0 [r1, r0, g1, g0, b1, b0] = ?n"
    by simp
  have "0 \<le> ?n" "?n < 2 ^ 53" using v by simp_all
  then have rd: "roundToDouble ?n = Num ?n" by (rule roundToDouble_exact)
  have "parseInt16 [r1, r0, g1, g0, b1, b0] =
      roundToDouble (foldl (\<lambda>a c. 16 * a + hexValue c) 0 [r1, r0, g1, g0, b1, b0])"
    unfolding parseInt16_def s by (simp only: p t Let_def case_prod_conv list.distinct if_False)
  then show ?thesis by (simp only: f rd)
qed

lemma parseHexColor_hex6:
  assumes "list_all isHexDigit [r1, r0, g1, g0, b1, b0]"
  shows "parseHexColor [CHR ''#'', r1, r0, g1, g0, b1, b0] =
     \<lparr> red = 16 * hexValue r1 + hexValue r0, green = 16 * hexValue g1 + hexValue g0,
       blue = 16 * hexValue b1 + hexValue b0 \<rparr>"
proof -
  have h: "isHexDigit r1" "isHexDigit r0" "isHexDigit g1" "isHexDigit g0" "isHexDigit b1" "isHexDigit b0"
    using assms by simp_all
  note v = h[THEN hexValue_range]
  let ?r = "16 * hexValue r1 + hexValue r0" and ?g = "16 * hexValue g1 + hexValue g0"
    and ?b = "16 * hexValue b1 + hexValue b0"
  have b: "0 \<le> ?r" "?r \<le> 255" "0 \<le> ?g" "?g \<le> 255" "0 \<le> ?b" "?b \<le> 255"
    using v by simp_all
  have "0 \<le> 65536 * ?r + 256 * ?g + ?b" "65536 * ?r + 256 * ?g + ?b < 2 ^ 31" using b by simp_all
  then have t: "toInt32 (Num (65536 * ?r + 256 * ?g + ?b)) = 65536 * ?r + 256 * ?g + ?b"
    by (rule toInt32_small)
  show ?thesis
    by (simp only: parseHexColor_def Let_def drop_Suc_Cons drop_0 One_nat_def
        parseInt16_hex6[OF assms] t channels[OF b])
qed

lemma cssColor_hex6:
  assumes "isHexColor6 s"
  shows "cssColor P s = Some (opaque (parseHexColor s))"
proof -
  obtain h r1 r0 g1 g0 b1 b0 where s: "s = [h, r1, r0, g1, g0, b1, b0]"
    using assms
    by (auto simp: isHexColor6_def length_Suc_conv eval_nat_numeral)
  have h: "h = CHR ''#''" and d: "list_all isHexDigit [r1, r0, g1, g0, b1, b0]"
    using assms by (simp_all add: isHexColor6_def s)
  show ?thesis
    using d by (simp add: s h cssColor_def parseHexColor_hex6[OF d] opaque_def)
qed

subsection \<open>Tiles and the two copies\<close>

lemma over_opaque: "alpha src = 255 \<Longrightarrow> over P src dst = src"
  by (simp add: over_def)

lemma over_clear: "alpha src = 0 \<Longrightarrow> over P src dst = dst"
  by (simp add: over_def)

lemma alpha_opaque [simp]: "alpha (opaque col) = 255"
  by (simp add: alpha_def opaque_def)

lemma sized_setFillStyle: "sized w h s \<Longrightarrow> sized w h (setFillStyle P s color)"
  by (simp add: setFillStyle_def sized_def split: option.splits)

lemma pixelAt_setFillStyle [simp]: "pixelAt (setFillStyle P s color) x y = pixelAt s x y"
  by (cases "cssColor P color") (simp_all add: setFillStyle_def pixelAt_def inBounds_def)

lemma sized_fillRect: "sized w h s \<Longrightarrow> sized w h (fillRect P s x y rw rh)"
  by (simp add: fillRect_def sized_mapPixels)

lemma drawImage_ok:
  assumes "sized w h src" "0 < w" "0 < h"
  shows "drawImage P dst src w h = Inr (mapPixels (\<lambda>px py p. over P (pixelAt src px py) p) dst)"
  using assms by (simp add: drawImage_def sized_def)

lemma pixelAt_tile:
  assumes "sized w h s" "inGrid w h x y" "cssColor P color = Some p" "alpha p = 255"
  shows "pixelAt (fillRect P (setFillStyle P s color) x y 1 1) x y = p"
proof -
  have f: "fillStyle (setFillStyle P s color) = p" using assms(3) by (simp add: setFillStyle_def)
  have c: "covers x y 1 1 x y" by (simp add: covers_def)
  show ?thesis
    using pixelAt_mapPixels[OF sized_setFillStyle[OF assms(1)] assms(2)] f c assms(4)
    by (simp add: fillRect_def over_opaque)
qed

text \<open>
  Claim C2. On an initialized pair, for a coordinate \<open>(x, y)\<close> in the grid and a colour
  string of the form \<^verbatim>\<open>#RRGGBB\<close>, \<^verbatim>\<open>drawTileToBuffer(x, y, color)\<close> and then
  \<^verbatim>\<open>drawBufferToDisplay()\<close> both return, and the pixel of the display at \<open>(x, y)\<close> is
  then the colour \<^verbatim>\<open>parseHexColor\<close> reads from the string, with alpha 255.
\<close>

theorem tile_reaches_display:
  assumes "initialized c" and "inGrid (width c) (height c) x y" and "isHexColor6 color"
  shows "\<exists>c1 c2. drawTileToBuffer P c x y color = Inr c1 \<and> drawBufferToDisplay P c1 = Inr c2 \<and>
           displayPixel c2 x y = opaque (parseHexColor color)"
proof -
  obtain d b where s: "el c = Some d" "bufferEl c = Some b"
    "sized (width c) (height c) d" "sized (width c) (height c) b"
    using initialized_buffer[OF assms(1)] by blast
  have p: "0 < width c" "0 < height c" using assms(1) by (simp_all add: initialized_def)
  let ?b = "fillRect P (setFillStyle P b color) x y 1 1"
  let ?c1 = "c\<lparr> bufferEl := Some ?b, isBufferDirty := True \<rparr>"
  let ?d = "mapPixels (\<lambda>px py p. over P (pixelAt ?b px py) p) d"
  have 1: "drawTileToBuffer P c x y color = Inr ?c1" using s by (simp add: drawTileToBuffer_def)
  have sb: "sized (width c) (height c) ?b"
    by (rule sized_fillRect[OF sized_setFillStyle[OF s(4)]])
  have 2: "drawBufferToDisplay P ?c1 = Inr (?c1\<lparr> el := Some ?d, isBufferDirty := False \<rparr>)"
    using s drawImage_ok[OF sb p, of P d] by (simp add: drawBufferToDisplay_def bindE_def)
  have b: "pixelAt ?b x y = opaque (parseHexColor color)"
    by (rule pixelAt_tile[OF s(4) assms(2) cssColor_hex6[OF assms(3)]]) simp
  have "pixelAt ?d x y = opaque (parseHexColor color)"
    using pixelAt_mapPixels[OF s(3) assms(2)] b by (simp add: over_opaque)
  then have 3: "displayPixel (?c1\<lparr> el := Some ?d, isBufferDirty := False \<rparr>) x y
      = opaque (parseHexColor color)"
    by (simp add: displayPixel_def)
  show ?thesis using 1 2 3 by blast
qed

theorem tile_reaches_display_witness:
  "initialized pair1 \<and> inGrid (width pair1) (height pair1) 0 0 \<and> isHexColor6 ''#ff0000'' \<and>
   (\<exists>c1 c2. drawTileToBuffer plainPlatform pair1 0 0 ''#ff0000'' = Inr c1 \<and>
       drawBufferToDisplay plainPlatform c1 = Inr c2 \<and> displayPixel c2 0 0 = RGBA 255 0 0 255)"
proof -
  have g: "inGrid (width pair1) (height pair1) 0 0" by (simp add: pair1_eq inGrid_def)
  have h: "isHexColor6 ''#ff0000''" by (simp add: isHexColor6_def isHexDigit_def hexDigitValue_def)
  show ?thesis
    using tile_reaches_display[OF initialized_pair1 g h, of plainPlatform] g h initialized_pair1
    by (simp add: example_red opaque_def)
qed

text \<open>
  Claim C4. For every state and all arguments, \<^verbatim>\<open>drawTileAt(x, y, color)\<close> has the result of
  \<^verbatim>\<open>drawTileToBuffer(x, y, color)\<close> followed by \<^verbatim>\<open>drawBufferToDisplay()\<close>: the same error,
  or the same object (both surfaces and both dirty flags); and the object it leaves is
  the one the two calls leave, also when one of them raises.
\<close>

theorem drawTileAt_is_write_then_flush:
  "drawTileAt P c x y color =
     (case drawTileToBuffer P c x y color of
        Inl e \<Rightarrow> Inl e
      | Inr c1 \<Rightarrow> drawBufferToDisplay P c1) \<and>
   step P c (DrawTileAt x y color) =
     step P (step P c (DrawTileToBuffer x y color)) DrawBufferToDisplay"
proof (cases "bufferEl c")
  case None
  then show ?thesis
    by (simp add: drawTileAt_def bindE_def drawTileToBuffer_def drawBufferToDisplay_def orElse_def
        split: option.splits)
next
  case (Some b)
  then show ?thesis
    by (simp add: drawTileAt_def bindE_def drawTileToBuffer_def orElse_def)
qed

theorem drawTileAt_is_write_then_flush_witness:
  "drawTileAt plainPlatform pair1 0 0 ''#ff0000'' =
     bindE (drawTileToBuffer plainPlatform pair1 0 0 ''#ff0000'') (drawBufferToDisplay plainPlatform)"
  using drawTileAt_is_write_then_flush[of plainPlatform pair1 0 0 "''#ff0000''"]
  by (simp add: bindE_def)

text \<open>
  Claim C8. A call of \<^verbatim>\<open>writeStateToBuffer\<close> that returns has changed nothing but the
  bitmap of the buffer: the display, \<^verbatim>\<open>width\<close>, \<^verbatim>\<open>height\<close> and both dirty flags are as
  before, and so are the dimensions and the fill style of the buffer. It does not set
  \<^verbatim>\<open>isBufferDirty\<close>, which \<^verbatim>\<open>drawTileToBuffer\<close> does.
\<close>

theorem writeStateToBuffer_frame:
  assumes "writeStateToBuffer c state = Inr c'"
  shows "el c' = el c \<and> width c' = width c \<and> height c' = height c \<and>
         isBufferDirty c' = isBufferDirty c \<and> isDisplayDirty c' = isDisplayDirty c \<and>
         (\<exists>b b'. bufferEl c = Some b \<and> bufferEl c' = Some b' \<and> cwidth b' = cwidth b \<and>
            cheight b' = cheight b \<and> fillStyle b' = fillStyle b \<and>
            length (bitmap b') = length (bitmap b)) \<and>
         (\<forall>c''. drawTileToBuffer P c x y color = Inr c'' \<longrightarrow> isBufferDirty c'')"
proof -
  obtain b img where b: "bufferEl c = Some b" "c' = c\<lparr> bufferEl := Some (putImageData b img) \<rparr>"
    using assms by (rule writeStateToBuffer_cases)
  show ?thesis using b by (auto simp: putImageData_def drawTileToBuffer_def)
qed

theorem writeStateToBuffer_frame_witness:
  "\<exists>c'. writeStateToBuffer pair1 [(0, 0, ''#ff0000'')] = Inr c' \<and>
      el c' = el pair1 \<and> isBufferDirty c' = False \<and> isDisplayDirty c' = False"
proof -
  obtain d b where b: "bufferEl pair1 = Some b"
    using initialized_buffer[OF initialized_pair1] by blast
  from writeStateToBuffer_ok[OF initialized_pair1 b, of "[(0, 0, ''#ff0000'')]"]
  obtain c' where c': "writeStateToBuffer pair1 [(0, 0, ''#ff0000'')] = Inr c'" by blast
  show ?thesis
    using writeStateToBuffer_frame[OF c'] c' by (auto simp: pair1_eq)
qed

lemma pair2_eq:
  "pair2 = \<lparr> width = 2, height = 2,
     el = Some \<lparr> cwidth = 2, cheight = 2,
       bitmap = [RGBA 0 0 0 0, RGBA 0 0 0 0, RGBA 0 0 0 0, RGBA 0 0 0 0], fillStyle = RGBA 0 0 0 255 \<rparr>,
     bufferEl = Some \<lparr> cwidth = 2, cheight = 2,
       bitmap = [RGBA 0 0 0 0, RGBA 0 0 0 0, RGBA 0 0 0 0, RGBA 0 0 0 0], fillStyle = RGBA 0 0 0 255 \<rparr>,
     isBufferDirty = False, isDisplayDirty = False \<rparr>"
  by (simp add: pair2_def init_result orElse_def canvasse0_def canvasDim_def Let_def blank_def
      transparent_def eval_nat_numeral)

lemma redTile_eq:
  "redTile = \<lparr> width = 1, height = 1,
     el = Some \<lparr> cwidth = 1, cheight = 1, bitmap = [RGBA 0 0 0 0], fillStyle = RGBA 0 0 0 255 \<rparr>,
     bufferEl = Some \<lparr> cwidth = 1, cheight = 1, bitmap = [RGBA 255 0 0 255], fillStyle = RGBA 255 0 0 255 \<rparr>,
     isBufferDirty = True, isDisplayDirty = False \<rparr>"
  unfolding redTile_def pair1_eq by code_simp

text \<open>
  Claim C3, as stated, fails: \<^verbatim>\<open>drawImage\<close> composites, it does not overwrite. After
  \<^verbatim>\<open>init(el, 1, 1)\<close> and \<^verbatim>\<open>drawTileToBuffer(0, 0, '#ff0000')\<close> the display is transparent
  and the buffer red; \<^verbatim>\<open>drawDisplayToBuffer()\<close> leaves the buffer red, and
  \<^verbatim>\<open>drawBufferToDisplay()\<close> then turns the display red.
\<close>

theorem roundtrip_changes_display:
  "initialized redTile \<and>
   displayBitmap redTile = [RGBA 0 0 0 0] \<and>
   \<not> isl (bindE (drawDisplayToBuffer plainPlatform redTile) (drawBufferToDisplay plainPlatform)) \<and>
   displayBitmap (orElse (bindE (drawDisplayToBuffer plainPlatform redTile)
                            (drawBufferToDisplay plainPlatform)) redTile) = [RGBA 255 0 0 255]"
proof -
  have "initialized redTile" by (simp add: redTile_eq initialized_def pairOf_def sized_def)
  moreover have "displayBitmap redTile = [RGBA 0 0 0 0]" by (simp add: redTile_eq displayBitmap_def)
  moreover have "\<not> isl (bindE (drawDisplayToBuffer plainPlatform redTile) (drawBufferToDisplay plainPlatform))"
    unfolding redTile_eq by code_simp
  moreover have "displayBitmap (orElse (bindE (drawDisplayToBuffer plainPlatform redTile)
                            (drawBufferToDisplay plainPlatform)) redTile) = [RGBA 255 0 0 255]"
    unfolding redTile_eq by code_simp
  ultimately show ?thesis by blast
qed

lemma roundtrip_pixel:
  assumes "initialized c"
  shows "\<exists>c1 c2 d2. drawDisplayToBuffer P c = Inr c1 \<and> drawBufferToDisplay P c1 = Inr c2 \<and>
           el c2 = Some d2 \<and> sized (width c) (height c) d2 \<and>
           (\<forall>x y. inGrid (width c) (height c) x y \<longrightarrow>
              displayPixel c2 x y =
                over P (over P (displayPixel c x y) (bufferPixel c x y)) (displayPixel c x y))"
proof -
  obtain d b where s: "el c = Some d" "bufferEl c = Some b"
    "sized (width c) (height c) d" "sized (width c) (height c) b"
    using initialized_buffer[OF assms(1)] by blast
  have p: "0 < width c" "0 < height c" using assms(1) by (simp_all add: initialized_def)
  let ?b = "mapPixels (\<lambda>px py p. over P (pixelAt d px py) p) b"
  let ?c1 = "c\<lparr> bufferEl := Some ?b, isDisplayDirty := False \<rparr>"
  let ?d = "mapPixels (\<lambda>px py p. over P (pixelAt ?b px py) p) d"
  let ?c2 = "?c1\<lparr> el := Some ?d, isBufferDirty := False \<rparr>"
  have 1: "drawDisplayToBuffer P c = Inr ?c1"
    using s drawImage_ok[OF s(3) p, of P b] by (simp add: drawDisplayToBuffer_def bindE_def)
  have sb: "sized (width c) (height c) ?b" by (rule sized_mapPixels[OF s(4)])
  have 2: "drawBufferToDisplay P ?c1 = Inr ?c2"
    using s drawImage_ok[OF sb p, of P d] by (simp add: drawBufferToDisplay_def bindE_def)
  have 3: "displayPixel ?c2 x y =
      over P (over P (displayPixel c x y) (bufferPixel c x y)) (displayPixel c x y)"
    if g: "inGrid (width c) (height c) x y" for x y
    using pixelAt_mapPixels[OF s(3) g] pixelAt_mapPixels[OF s(4) g] s
    by (simp add: displayPixel_def bufferPixel_def)
  have 4: "el ?c2 = Some ?d" "sized (width c) (height c) ?d"
    using sized_mapPixels[OF s(3)] by simp_all
  show ?thesis using 1 2 3 4 by blast
qed

text \<open>
  Claim C3, amended. On an initialized pair, \<^verbatim>\<open>drawDisplayToBuffer()\<close> and then
  \<^verbatim>\<open>drawBufferToDisplay()\<close> both return and leave unchanged every pixel of the display
  that is fully opaque, and every fully transparent one whose pixel of the buffer is
  fully transparent too; a fully transparent pixel of the display over a fully opaque
  pixel of the buffer takes the colour of the buffer. On a display whose pixels are all
  opaque the round trip changes no pixel of the display.
\<close>

theorem roundtrip_display:
  assumes "initialized c"
  shows "\<exists>c1 c2. drawDisplayToBuffer P c = Inr c1 \<and> drawBufferToDisplay P c1 = Inr c2 \<and>
     (\<forall>x y. inGrid (width c) (height c) x y \<longrightarrow> alpha (displayPixel c x y) = 255 \<longrightarrow>
        displayPixel c2 x y = displayPixel c x y) \<and>
     (\<forall>x y. inGrid (width c) (height c) x y \<longrightarrow> alpha (displayPixel c x y) = 0 \<longrightarrow>
        alpha (bufferPixel c x y) = 0 \<longrightarrow> displayPixel c2 x y = displayPixel c x y) \<and>
     (\<forall>x y. inGrid (width c) (height c) x y \<longrightarrow> alpha (displayPixel c x y) = 0 \<longrightarrow>
        alpha (bufferPixel c x y) = 255 \<longrightarrow> displayPixel c2 x y = bufferPixel c x y) \<and>
     ((\<forall>p \<in> set (displayBitmap c). alpha p = 255) \<longrightarrow> displayBitmap c2 = displayBitmap c)"
proof -
  obtain c1 c2 d2 where r: "drawDisplayToBuffer P c = Inr c1" "drawBufferToDisplay P c1 = Inr c2"
    "el c2 = Some d2" "sized (width c) (height c) d2"
    "\<And>x y. inGrid (width c) (height c) x y \<Longrightarrow>
       displayPixel c2 x y =
         over P (over P (displayPixel c x y) (bufferPixel c x y)) (displayPixel c x y)"
    using roundtrip_pixel[OF assms, of P] by blast
  obtain d b where s: "el c = Some d" "sized (width c) (height c) d"
    using initialized_buffer[OF assms(1)] by blast
  have a: "displayPixel c2 x y = displayPixel c x y"
    if "inGrid (width c) (height c) x y" "alpha (displayPixel c x y) = 255" for x y
    using r(5)[OF that(1)] that(2) by (simp add: over_opaque)
  have b: "displayPixel c2 x y = displayPixel c x y"
    if "inGrid (width c) (height c) x y" "alpha (displayPixel c x y) = 0"
      "alpha (bufferPixel c x y) = 0" for x y
    using r(5)[OF that(1)] that(2,3) by (simp add: over_clear)
  have e: "displayPixel c2 x y = bufferPixel c x y"
    if "inGrid (width c) (height c) x y" "alpha (displayPixel c x y) = 0"
      "alpha (bufferPixel c x y) = 255" for x y
    using r(5)[OF that(1)] that(2,3) by (simp add: over_clear over_opaque)
  have f: "displayBitmap c2 = displayBitmap c" if o: "\<forall>p \<in> set (displayBitmap c). alpha p = 255"
  proof -
    have len: "length (bitmap d2) = length (bitmap d)" using r(4) s(2) by (simp add: sized_def)
    have "bitmap d2 ! i = bitmap d ! i" if i: "i < length (bitmap d)" for i
    proof -
      let ?x = "int i mod width c" and ?y = "int i div width c"
      have g: "inGrid (width c) (height c) ?x ?y"
        using i s(2) index_grid(1)[of i "width c" "height c"] by (simp add: sized_def)
      have 1: "pixelAt d ?x ?y = bitmap d ! i" by (rule pixelAt_nth[OF s(2) i])
      have 2: "pixelAt d2 ?x ?y = bitmap d2 ! i" using pixelAt_nth[OF r(4)] i len by simp
      have "alpha (bitmap d ! i) = 255" using o i s(1) by (simp add: displayBitmap_def)
      then have "alpha (displayPixel c ?x ?y) = 255" using 1 s(1) by (simp add: displayPixel_def)
      from a[OF g this] show ?thesis using 1 2 s(1) r(3) by (simp add: displayPixel_def)
    qed
    then show ?thesis using len s(1) r(3) by (simp add: displayBitmap_def list_eq_iff_nth_eq)
  qed
  show ?thesis using r(1,2) a b e f by blast
qed

lemma blueDisplay_eq:
  "blueDisplay = \<lparr> width = 1, height = 1,
     el = Some \<lparr> cwidth = 1, cheight = 1, bitmap = [RGBA 0 0 255 255], fillStyle = RGBA 0 0 255 255 \<rparr>,
     bufferEl = Some \<lparr> cwidth = 1, cheight = 1, bitmap = [RGBA 0 0 0 0], fillStyle = RGBA 0 0 0 255 \<rparr>,
     isBufferDirty = False, isDisplayDirty = True \<rparr>"
  unfolding blueDisplay_def pair1_eq by code_simp

theorem roundtrip_display_witness:
  "initialized blueDisplay \<and>
   (\<exists>c1 c2. drawDisplayToBuffer plainPlatform blueDisplay = Inr c1 \<and>
      drawBufferToDisplay plainPlatform c1 = Inr c2 \<and>
      displayBitmap c2 = [RGBA 0 0 255 255])"
proof -
  have i: "initialized blueDisplay" by (simp add: blueDisplay_eq initialized_def pairOf_def sized_def)
  have o: "\<forall>p \<in> set (displayBitmap blueDisplay). alpha p = 255"
    by (simp add: blueDisplay_eq displayBitmap_def alpha_def)
  have b: "displayBitmap blueDisplay = [RGBA 0 0 255 255]"
    by (simp add: blueDisplay_eq displayBitmap_def)
  show ?thesis using roundtrip_display[OF i, of plainPlatform] i o b by auto
qed

subsection \<open>Dimensions, \<^verbatim>\<open>init\<close> and the index of a coordinate\<close>

lemma canvasDim_id: "0 \<le> v \<Longrightarrow> v < 2 ^ 31 \<Longrightarrow> canvasDim dflt v = v"
  by (simp add: canvasDim_def Let_def)

lemma setFillStyle_dims:
  "cwidth (setFillStyle P s color) = cwidth s" "cheight (setFillStyle P s color) = cheight s"
  by (cases "cssColor P color"; simp add: setFillStyle_def)+

lemma fillRect_dims:
  "cwidth (fillRect P s x y rw rh) = cwidth s" "cheight (fillRect P s x y rw rh) = cheight s"
  by (simp_all add: fillRect_def)

lemma clearRect_dims:
  "cwidth (clearRect s x y rw rh) = cwidth s" "cheight (clearRect s x y rw rh) = cheight s"
  by (simp_all add: clearRect_def)

lemma putImageData_dims:
  "cwidth (putImageData s img) = cwidth s" "cheight (putImageData s img) = cheight s"
  by (simp_all add: putImageData_def)

lemma drawImage_dims:
  "drawImage P dst src dw dh = Inr dst' \<Longrightarrow> cwidth dst' = cwidth dst \<and> cheight dst' = cheight dst"
  by (auto simp: drawImage_def split: if_splits)

lemma sameDimensions_drawTileToDisplay:
  "sameDimensions w h c \<Longrightarrow> drawTileToDisplay P c x y color = Inr c' \<Longrightarrow> sameDimensions w h c'"
  by (auto simp: sameDimensions_def drawTileToDisplay_def fillRect_dims setFillStyle_dims
      split: option.splits)

lemma sameDimensions_drawRectToDisplay:
  "sameDimensions w h c \<Longrightarrow> drawRectToDisplay P c x y rw rh color = Inr c' \<Longrightarrow>
   sameDimensions w h c'"
  by (auto simp: sameDimensions_def drawRectToDisplay_def fillRect_dims setFillStyle_dims
      split: option.splits)

lemma sameDimensions_clearRectFromDisplay:
  "sameDimensions w h c \<Longrightarrow> clearRectFromDisplay c x y rw rh = Inr c' \<Longrightarrow> sameDimensions w h c'"
  by (auto simp: sameDimensions_def clearRectFromDisplay_def clearRect_dims split: option.splits)

lemma sameDimensions_drawTileToBuffer:
  "sameDimensions w h c \<Longrightarrow> drawTileToBuffer P c x y color = Inr c' \<Longrightarrow> sameDimensions w h c'"
  by (auto simp: sameDimensions_def drawTileToBuffer_def fillRect_dims setFillStyle_dims
      split: option.splits)

lemma sameDimensions_drawBufferToDisplay:
  "sameDimensions w h c \<Longrightarrow> drawBufferToDisplay P c = Inr c' \<Longrightarrow> sameDimensions w h c'"
  by (auto simp: sameDimensions_def drawBufferToDisplay_def bindE_def
      split: option.splits sum.splits dest: drawImage_dims)

lemma sameDimensions_drawDisplayToBuffer:
  "sameDimensions w h c \<Longrightarrow> drawDisplayToBuffer P c = Inr c' \<Longrightarrow> sameDimensions w h c'"
  by (auto simp: sameDimensions_def drawDisplayToBuffer_def bindE_def
      split: option.splits sum.splits dest: drawImage_dims)

lemma sameDimensions_writeStateToBuffer:
  "sameDimensions w h c \<Longrightarrow> writeStateToBuffer c state = Inr c' \<Longrightarrow> sameDimensions w h c'"
  by (auto elim!: writeStateToBuffer_cases simp: sameDimensions_def putImageData_dims
      split: option.splits)

lemma sameDimensions_step: "sameDimensions w h c \<Longrightarrow> sameDimensions w h (step P c op)"
proof (cases op)
  case (DrawTileAt x y color)
  assume p: "sameDimensions w h c"
  show ?thesis
  proof (cases "drawTileToBuffer P c x y color")
    case (Inl e)
    then show ?thesis using p by (simp add: DrawTileAt)
  next
    case (Inr c1)
    have p1: "sameDimensions w h c1" by (rule sameDimensions_drawTileToBuffer[OF p Inr])
    show ?thesis
      using p1 Inr sameDimensions_drawBufferToDisplay[OF p1]
      by (cases "drawBufferToDisplay P c1") (simp_all add: DrawTileAt orElse_def)
  qed
qed (auto simp: orElse_def split: sum.splits
      dest: sameDimensions_drawTileToDisplay sameDimensions_drawRectToDisplay
        sameDimensions_clearRectFromDisplay sameDimensions_drawTileToBuffer
        sameDimensions_drawBufferToDisplay sameDimensions_drawDisplayToBuffer
        sameDimensions_writeStateToBuffer)

lemma sameDimensions_steps:
  "sameDimensions w h c \<Longrightarrow> sameDimensions w h (foldl (step P) c ops)"
  by (induction ops arbitrary: c) (simp_all add: sameDimensions_step)

lemma sameDimensions_init:
  "init c0 e w h = Inr c \<Longrightarrow> sameDimensions (canvasDim 300 w) (canvasDim 150 h) c"
  by (auto simp: init_result sameDimensions_def)

text \<open>
  Claim C5, as stated, fails from a width of \<open>2 ^ 31\<close> on: the canvas elements do not
  keep such a width. After \<^verbatim>\<open>init(el, 2147483648, 1)\<close> both surfaces are 300 by 1, not
  2147483648 by 1.
\<close>

theorem init_beyond_canvas_range:
  "(0::int) < 2147483648 \<and> (0::int) < 1 \<and>
   \<not> sameDimensions 2147483648 1 (orElse (init canvasse0 createCanvas 2147483648 1) canvasse0) \<and>
   sameDimensions 300 1 (orElse (init canvasse0 createCanvas 2147483648 1) canvasse0)"
  by (simp add: init_result orElse_def sameDimensions_def canvasDim_def Let_def)

text \<open>
  Claim C5, amended. After \<^verbatim>\<open>init\<close>, whatever the width and the height, the display and
  the buffer have the same dimensions (those the canvas elements keep of the width and
  the height), and so they have after every sequence of calls of the module, whether
  the calls return or raise. For a width \<open>w\<close> and a height \<open>h\<close> that are positive and below
  \<open>2 ^ 31\<close> these dimensions are \<open>w\<close> by \<open>h\<close>.
\<close>

theorem dimensions_invariant:
  assumes "init c0 e w h = Inr c"
  shows "(\<forall>ops. sameDimensions (canvasDim 300 w) (canvasDim 150 h) (foldl (step P) c ops)) \<and>
         (0 < w \<and> w < 2 ^ 31 \<and> 0 < h \<and> h < 2 ^ 31 \<longrightarrow>
            (\<forall>ops. sameDimensions w h (foldl (step P) c ops)))"
proof -
  have 1: "sameDimensions (canvasDim 300 w) (canvasDim 150 h) (foldl (step P) c ops)" for ops
    by (rule sameDimensions_steps[OF sameDimensions_init[OF assms]])
  have 2: "sameDimensions w h (foldl (step P) c ops)"
    if "0 < w \<and> w < 2 ^ 31 \<and> 0 < h \<and> h < 2 ^ 31" for ops
    using 1[of ops] that by (simp add: canvasDim_id)
  show ?thesis using 1 2 by blast
qed

theorem dimensions_invariant_witness:
  "init canvasse0 createCanvas 1 1 = Inr pair1 \<and>
   (0::int) < 1 \<and> (1::int) < 2 ^ 31 \<and>
   sameDimensions 1 1 (foldl (step plainPlatform) pair1
     [DrawTileToDisplay 0 0 ''#0000ff'', WriteStateToBuffer [(0, 0, ''#ff0000'')],
      DrawDisplayToBuffer, DrawTileAt 0 0 ''#00ff00''])"
proof -
  have i: "init canvasse0 createCanvas 1 1 = Inr pair1"
    by (simp add: pair1_def init_result orElse_def)
  have z: "(0::int) < 1 \<and> (1::int) < 2 ^ 31 \<and> (0::int) < 1 \<and> (1::int) < 2 ^ 31" by simp
  show ?thesis using dimensions_invariant[OF i, of plainPlatform] z i by blast
qed





text \<open>
  Claim C7, as stated, fails: on a 2 by 2 canvas the coordinate \<open>(2, 0)\<close> is outside the
  grid, its index 8 is inside the 16 bytes, and \<^verbatim>\<open>writeStateToBuffer\<close> writes the update to
  the pixel \<open>(0, 1)\<close>.
\<close>

theorem outside_coordinate_lands_inside:
  "\<not> inGrid 2 2 2 0 \<and> 0 \<le> flatIndex 2 2 0 \<and> flatIndex 2 2 0 < 4 * 2 * 2 \<and>
   bufferBitmap (orElse (writeStateToBuffer pair2 [(2, 0, ''#ff0000'')]) pair2) =
     [RGBA 0 0 0 0, RGBA 0 0 0 0, RGBA 255 0 0 255, RGBA 0 0 0 0]"
proof -
  have "bufferBitmap (orElse (writeStateToBuffer pair2 [(2, 0, ''#ff0000'')]) pair2) =
     [RGBA 0 0 0 0, RGBA 0 0 0 0, RGBA 255 0 0 255, RGBA 0 0 0 0]"
    unfolding pair2_eq by code_simp
  then show ?thesis by (simp add: inGrid_def flatIndex_def)
qed

text \<open>
  Claim C7, amended. For a positive width, an update with \<open>x\<close> in \<open>[0, width)\<close> and \<open>y\<close>
  outside \<open>[0, height)\<close> has its index \<open>4 * (y * width + x)\<close> outside the bytes of the
  array. In general the index is inside exactly when \<open>0 \<le> y * width + x < width * height\<close>,
  whatever \<open>x\<close> is.
\<close>

theorem flatIndex_bounds:
  assumes "0 < w"
  shows "(0 \<le> x \<and> x < w \<and> (y < 0 \<or> h \<le> y) \<longrightarrow>
            \<not> (0 \<le> flatIndex w x y \<and> flatIndex w x y < 4 * w * h)) \<and>
         ((0 \<le> flatIndex w x y \<and> flatIndex w x y < 4 * w * h) =
            (0 \<le> y * w + x \<and> y * w + x < w * h))"
proof -
  have 2: "(0 \<le> flatIndex w x y \<and> flatIndex w x y < 4 * w * h) =
            (0 \<le> y * w + x \<and> y * w + x < w * h)"
    unfolding flatIndex_def mult.assoc by auto
  have 1: "\<not> (0 \<le> y * w + x \<and> y * w + x < w * h)" if x: "0 \<le> x" "x < w" and y: "y < 0 \<or> h \<le> y"
  proof (cases "y < 0")
    case True
    then have "y + 1 \<le> 0" by simp
    then have "(y + 1) * w \<le> 0" using assms by (simp add: mult_le_0_iff)
    then have "y * w + x < 0" using x by (simp add: algebra_simps)
    then show ?thesis by simp
  next
    case False
    then have "h \<le> y" using y by simp
    then have "h * w \<le> y * w" using assms by (simp add: mult_right_mono)
    moreover have "h * w = w * h" by simp
    ultimately have "w * h \<le> y * w + x" using x by linarith
    then show ?thesis by simp
  qed
  show ?thesis using 1 2 by blast
qed

theorem flatIndex_bounds_witness:
  "(0::int) < 2 \<and> \<not> (0 \<le> flatIndex 2 1 2 \<and> flatIndex 2 1 2 < 4 * 2 * 2) \<and>
   (0 \<le> flatIndex 2 2 0 \<and> flatIndex 2 2 0 < 4 * 2 * 2)"
  using flatIndex_bounds[of 2 1 2 2] flatIndex_bounds[of 2 2 0 2] by simp

section \<open>Properties of utils.js\<close>

lemma set_addEventListener:
  "set (addEventListener target event handler capture) = insert (event, handler, capture) (set target)"
  by (auto simp: addEventListener_def)

lemma set_foldl_addEventListener:
  "set (foldl (\<lambda>t (event, handler). addEventListener t event handler True) target eventsDict) =
     set target \<union> (\<lambda>(event, handler). (event, handler, True)) ` set eventsDict"
  by (induction eventsDict arbitrary: target) (auto simp: set_addEventListener)

text \<open>
  Claim C9. For every target, dictionary and \<^verbatim>\<open>useCapture\<close> (true, false or omitted),
  \<^verbatim>\<open>bindEvents\<close> registers every handler of the dictionary with the capture flag true: the
  listeners of the target are the ones it had and those, and the result is the one of
  the call with \<^verbatim>\<open>useCapture\<close> omitted.
\<close>

theorem bindEvents_always_captures:
  "(\<forall>(event, handler) \<in> set eventsDict.
      (event, handler, True) \<in> set (bindEvents target eventsDict useCapture)) \<and>
   set (bindEvents target eventsDict useCapture) =
     set target \<union> (\<lambda>(event, handler). (event, handler, True)) ` set eventsDict \<and>
   bindEvents target eventsDict useCapture = bindEvents target eventsDict None"
  by (auto simp: bindEvents_def set_foldl_addEventListener)

theorem bindEvents_always_captures_witness:
  "(''mouseup'', 3 :: nat, True) \<in> set (bindEvents [] [(''mouseup'', 3)] (Some False)) \<and>
   bindEvents [] [(''mouseup'', 3 :: nat)] (Some False) = [(''mouseup'', 3, True)]"
proof -
  note t = bindEvents_always_captures[of "[(''mouseup'', 3 :: nat)]" "[]" "Some False"]
  from t have "\<forall>(event, handler) \<in> set [(''mouseup'', 3 :: nat)].
      (event, handler, True) \<in> set (bindEvents [] [(''mouseup'', 3)] (Some False))"
    by blast
  then have 1: "(''mouseup'', 3 :: nat, True) \<in> set (bindEvents [] [(''mouseup'', 3)] (Some False))"
    by simp
  have 2: "bindEvents [] [(''mouseup'', 3 :: nat)] (Some False) = [(''mouseup'', 3, True)]"
    by (simp add: bindEvents_def addEventListener_def)
  show ?thesis using 1 2 by blast
qed

lemma getProp_hijack:
  "getProp (hijack h target methodName fn) target methodName =
     Hijacked target (getProp h target methodName) fn"
  by (simp add: hijack_def getProp_def setProp_def)

text \<open>
  Claim C10. After \<^verbatim>\<open>hijack(target, methodName, fn)\<close> the property \<^verbatim>\<open>methodName\<close> of the
  target is the replacement. Whenever \<^verbatim>\<open>fn\<close>, applied to the target with
  \<^verbatim>\<open>targetMethod\<close> set, returns a value, the replacement returns \<^verbatim>\<open>undefined\<close> (and has
  deleted \<^verbatim>\<open>targetMethod\<close>); and it never returns anything else. (When \<^verbatim>\<open>fn\<close> throws or
  does not return, so does the replacement.)
\<close>

theorem hijacked_returns_undefined:
  "getProp (hijack h target methodName fn) target methodName =
     Hijacked target (getProp h target methodName) fn \<and>
   (\<forall>res h2.
      apply_js prog fn target args (setProp h' target ''targetMethod'' (getProp h target methodName))
        = Returns res h2 \<longrightarrow>
      apply_js prog (getProp (hijack h target methodName fn) target methodName) receiver args h'
        = Returns Undefined (deleteProp h2 target ''targetMethod'')) \<and>
   (\<forall>v h2.
      apply_js prog (getProp (hijack h target methodName fn) target methodName) receiver args h'
        = Returns v h2 \<longrightarrow> v = Undefined)"
  by (auto simp: getProp_hijack split: completion.splits)

theorem hijacked_returns_undefined_witness:
  "apply_js answers42 (Function 0) 7 [] (setProp (\<lambda>r. Map.empty) 7 ''targetMethod'' Undefined)
     = Returns (Data 42) (setProp (\<lambda>r. Map.empty) 7 ''targetMethod'' Undefined) \<and>
   apply_js answers42 (getProp (hijack (\<lambda>r. Map.empty) 7 ''draw'' (Function 0)) 7 ''draw'') 7 []
       (\<lambda>r. Map.empty)
     = Returns Undefined
         (deleteProp (setProp (\<lambda>r. Map.empty) 7 ''targetMethod'' Undefined) 7 ''targetMethod'')"
proof -
  have g: "getProp (\<lambda>r. Map.empty) 7 ''draw'' = (Undefined :: (nat, int) jsval)"
    by (simp add: getProp_def)
  have a: "apply_js answers42 (Function 0) 7 []
      (setProp (\<lambda>r. Map.empty) 7 ''targetMethod'' (getProp (\<lambda>r. Map.empty) 7 ''draw''))
     = Returns (Data 42) (setProp (\<lambda>r. Map.empty) 7 ''targetMethod'' Undefined)"
    by (simp add: answers42_def g)
  show ?thesis
    using hijacked_returns_undefined[of "\<lambda>r. Map.empty" 7 "''draw''" "Function 0" answers42 "[]"
        "\<lambda>r. Map.empty" 7] a
    by (simp add: g)
qed

end
